theory Spec2Isabelle
  imports Complex_Main "HOL-Library.Word"
begin

section \<open>JavaScript strings\<close>

text \<open>
  A JavaScript string is a sequence of UTF-16 code units. The text functions of
  \<^verbatim>\<open>ingest.ts\<close> inspect single code units (white space, digits, line terminators),
  so a string is modelled as a list of 16-bit words.
\<close>

type_synonym jschar = "16 word"
type_synonym jsstring = "jschar list"

definition js :: "string \<Rightarrow> jsstring" where
  "js s = map of_char s"

text \<open>The class \<^verbatim>\<open>\s\<close> of a regular expression without the unicode flag; \<^verbatim>\<open>trim\<close>
  removes the same code units.\<close>

definition is_space :: "jschar \<Rightarrow> bool" where
  "is_space c \<longleftrightarrow>
     c = 0x09 \<or> c = 0x0A \<or> c = 0x0B \<or> c = 0x0C \<or> c = 0x0D \<or> c = 0x20 \<or> c = 0xA0 \<or>
     c = 0x1680 \<or> (0x2000 \<le> c \<and> c \<le> 0x200A) \<or> c = 0x2028 \<or> c = 0x2029 \<or>
     c = 0x202F \<or> c = 0x205F \<or> c = 0x3000 \<or> c = 0xFEFF"

text \<open>The line terminators, after which \<^verbatim>\<open>^\<close> matches and before which \<^verbatim>\<open>$\<close> matches
  under the \<^verbatim>\<open>m\<close> flag.\<close>

definition is_line_terminator :: "jschar \<Rightarrow> bool" where
  "is_line_terminator c \<longleftrightarrow> c = 0x0A \<or> c = 0x0D \<or> c = 0x2028 \<or> c = 0x2029"

text \<open>The class \<^verbatim>\<open>\d\<close>.\<close>

definition is_digit :: "jschar \<Rightarrow> bool" where
  "is_digit c \<longleftrightarrow> 0x30 \<le> c \<and> c \<le> 0x39"

text \<open>\<^verbatim>\<open>String.prototype.trim\<close>.\<close>

definition js_trim :: "jsstring \<Rightarrow> jsstring" where
  "js_trim s = rev (dropWhile is_space (rev (dropWhile is_space s)))"

text \<open>\<^verbatim>\<open>text.split(/\s+/)\<close>: the text is cut at every maximal run of white space. The
  result is never empty: the empty text gives one empty word, and white space at either
  end of the text gives an empty word there.\<close>

function split_ws :: "jsstring \<Rightarrow> jsstring list" where
  "split_ws [] = [[]]"
| "split_ws (c # cs) =
     (if is_space c then [] # split_ws (dropWhile is_space cs)
      else (case split_ws cs of
              [] \<Rightarrow> [[c]]
            | w # ws \<Rightarrow> (c # w) # ws))"
  by pat_completeness auto
termination
  by (relation "measure length") (auto simp: le_imp_less_Suc length_dropWhile_le)

text \<open>\<^verbatim>\<open>words.join(' ')\<close>.\<close>

fun js_join :: "jsstring list \<Rightarrow> jsstring" where
  "js_join [] = []"
| "js_join [w] = w"
| "js_join (w # v # ws) = w @ 0x20 # js_join (v # ws)"

text \<open>\<^verbatim>\<open>Array.prototype.slice(start, end)\<close>: a negative index counts from the end of the
  array, and both indices are clamped to the array.\<close>

definition js_slice :: "'a list \<Rightarrow> int \<Rightarrow> int \<Rightarrow> 'a list" where
  "js_slice xs s e =
     (let n = int (length xs);
          k = (if s < 0 then max (n + s) 0 else min s n);
          f = (if e < 0 then max (n + e) 0 else min e n)
      in take (nat (f - k)) (drop (nat k) xs))"

section \<open>Text cleaning\<close>

text \<open>
  \<^verbatim>\<open>text.replace(re, rep)\<close> for a global regular expression whose matches are never
  empty. The matcher \<open>m\<close> is given whether the position is the start of a line and the
  rest of the text from the position, and answers with the length of the match there.
  The scan keeps every code unit outside a match, writes \<open>rep\<close> for each match and
  resumes right after it; \<open>skip\<close> counts the code units of the current match that are
  still to be passed over.
\<close>

fun replace_all ::
  "(bool \<Rightarrow> jsstring \<Rightarrow> nat option) \<Rightarrow> jsstring \<Rightarrow> bool \<Rightarrow> nat \<Rightarrow> jsstring \<Rightarrow> jsstring" where
  "replace_all m rep ls skip [] = []"
| "replace_all m rep ls skip (c # cs) =
     (if 0 < skip then replace_all m rep (is_line_terminator c) (skip - 1) cs
      else (case m ls (c # cs) of
              Some n \<Rightarrow> rep @ replace_all m rep (is_line_terminator c) (n - 1) cs
            | None \<Rightarrow> c # replace_all m rep (is_line_terminator c) 0 cs))"

text \<open>The position of the last line terminator (or of the last line feed) in a run of
  white space, where a greedy \<^verbatim>\<open>\s*\<close> stops after backtracking.\<close>

fun last_index :: "('a \<Rightarrow> bool) \<Rightarrow> 'a list \<Rightarrow> nat option" where
  "last_index P [] = None"
| "last_index P (x # xs) =
     (case last_index P xs of
        Some i \<Rightarrow> Some (Suc i)
      | None \<Rightarrow> (if P x then Some 0 else None))"

text \<open>A literal prefix followed by \<^verbatim>\<open>\d+\<close>, as in \<^verbatim>\<open>Page \d+\<close>.\<close>

definition match_word_digits :: "jsstring \<Rightarrow> jsstring \<Rightarrow> nat option" where
  "match_word_digits w s =
     (if take (length w) s = w \<and> takeWhile is_digit (drop (length w) s) \<noteq> []
      then Some (length w + length (takeWhile is_digit (drop (length w) s)))
      else None)"

text \<open>\<^verbatim>\<open>\d+\s*$\<close> under the \<^verbatim>\<open>m\<close> flag: all the digits, then the white space up to the
  end of the text or, failing that, up to the last line terminator of the run.\<close>

definition match_digits_eol :: "jsstring \<Rightarrow> nat option" where
  "match_digits_eol s =
     (let ds = takeWhile is_digit s;
          ws = takeWhile is_space (dropWhile is_digit s)
      in if ds = [] then None
         else if dropWhile is_space (dropWhile is_digit s) = []
         then Some (length ds + length ws)
         else (case last_index is_line_terminator ws of
                 Some p \<Rightarrow> Some (length ds + p)
               | None \<Rightarrow> None))"

text \<open>\<^verbatim>\<open>/^(Page \d+|\d+\s*$)/gm\<close>\<close>

definition match_page :: "bool \<Rightarrow> jsstring \<Rightarrow> nat option" where
  "match_page ls s =
     (if \<not> ls then None
      else (case match_word_digits (js ''Page '') s of
              Some n \<Rightarrow> Some n
            | None \<Rightarrow> match_digits_eol s))"

text \<open>\<^verbatim>\<open>/^(Chapter \d+|Section \d+)/gm\<close>\<close>

definition match_heading :: "bool \<Rightarrow> jsstring \<Rightarrow> nat option" where
  "match_heading ls s =
     (if \<not> ls then None
      else (case match_word_digits (js ''Chapter '') s of
              Some n \<Rightarrow> Some n
            | None \<Rightarrow> match_word_digits (js ''Section '') s))"

text \<open>\<^verbatim>\<open>/\n\s*\n/g\<close>: a line feed, then white space up to the last line feed of the run.\<close>

definition match_blank_lines :: "bool \<Rightarrow> jsstring \<Rightarrow> nat option" where
  "match_blank_lines ls s =
     (case s of
        [] \<Rightarrow> None
      | c # cs \<Rightarrow>
          (if c \<noteq> 0x0A then None
           else (case last_index (\<lambda>d. d = 0x0A) (takeWhile is_space cs) of
                   Some p \<Rightarrow> Some (p + 2)
                 | None \<Rightarrow> None)))"

text \<open>\<^verbatim>\<open>.replace(/\s+/g, ' ')\<close>\<close>

function collapse_ws :: "jsstring \<Rightarrow> jsstring" where
  "collapse_ws [] = []"
| "collapse_ws (c # cs) =
     (if is_space c then 0x20 # collapse_ws (dropWhile is_space cs)
      else c # collapse_ws cs)"
  by pat_completeness auto
termination
  by (relation "measure length") (auto simp: le_imp_less_Suc length_dropWhile_le)

definition collapse_blank_lines :: "jsstring \<Rightarrow> jsstring" where
  "collapse_blank_lines s = replace_all match_blank_lines [0x0A] True 0 s"

definition cleanText :: "jsstring \<Rightarrow> jsstring" where
  "cleanText text =
     js_trim
       (collapse_blank_lines
          (collapse_ws
             (replace_all match_heading [] True 0
                (replace_all match_page [] True 0 text))))"

section \<open>Chunking\<close>

text \<open>
  The loop of \<^verbatim>\<open>chunkText\<close>. \<open>start\<close> is a JavaScript number that the overlap step can
  make negative, so it is an integer. The loop has no bound that the source states, so it
  is a partial function: the value \<open>None\<close> stands for a call that never returns.
\<close>

partial_function (option) chunk_loop ::
  "jsstring list \<Rightarrow> int \<Rightarrow> int \<Rightarrow> int \<Rightarrow> jsstring list \<Rightarrow> jsstring list option" where
  "chunk_loop words maxWords overlapWords start chunks =
     (if start < int (length words) then
        (let end = min (start + maxWords) (int (length words));
             chunk = js_join (js_slice words start end);
             chunks' = (if js_trim chunk \<noteq> [] then chunks @ [js_trim chunk] else chunks);
             start' = end - overlapWords
         in if int (length words) \<le> start' then Some chunks'
            else chunk_loop words maxWords overlapWords start' chunks')
      else Some chunks)"

text \<open>
  \<^verbatim>\<open>chunkText(text, maxTokens = 700, overlapTokens = 120)\<close>. The two word counts are
  \<^verbatim>\<open>Math.floor(maxTokens * (1 / 1.3))\<close> and \<^verbatim>\<open>Math.floor(overlapTokens * (1 / 1.3))\<close>,
  computed in double precision; \<open>chunkText_words\<close> takes them as they come out, and
  \<open>chunkText\<close> is the call with the default budgets, the only one the handlers make:
  \<open>700 * (1 / 1.3) = 538.46...\<close> and \<open>120 * (1 / 1.3) = 92.30...\<close>.
\<close>

definition chunkText_words :: "int \<Rightarrow> int \<Rightarrow> jsstring \<Rightarrow> jsstring list option" where
  "chunkText_words maxWords overlapWords text =
     chunk_loop (split_ws text) maxWords overlapWords 0 []"

definition chunkText :: "jsstring \<Rightarrow> jsstring list option" where
  "chunkText text = chunkText_words 538 92 text"

text \<open>\<^verbatim>\<open>estimateTokens\<close>: \<^verbatim>\<open>Math.ceil(words * 1.3)\<close>. The product is off the exact value
  \<open>13 * words / 10\<close> by far less than the distance of that value to the next integer
  above it, so the ceiling is the exact one.\<close>

definition estimateTokens :: "jsstring \<Rightarrow> nat" where
  "estimateTokens text = (13 * length (split_ws text) + 9) div 10"

text \<open>Whether two neighbouring code units of a string are both white space.\<close>

fun has_adjacent_spaces :: "jsstring \<Rightarrow> bool" where
  "has_adjacent_spaces [] = False"
| "has_adjacent_spaces [c] = False"
| "has_adjacent_spaces (c # d # cs) =
     ((is_space c \<and> is_space d) \<or> has_adjacent_spaces (d # cs))"

section \<open>Embedding with retry\<close>

type_synonym embedding = "rat list"
type_synonym bytes = "8 word list"

text \<open>The errors that the ingestion code throws or receives. \<open>ApiError\<close> is an error thrown
  by the embedding client (the number tells one failure from another), \<open>DbError\<close> one
  thrown by the database client.\<close>

datatype error =
    MissingIdentifier
  | UnableToDeriveKey
  | DocumentNotFound
  | FetchFailed nat
  | FileNotFound
  | ExtractionFailed
  | NoTextContent
  | MaxRetriesExceeded
  | InvalidJson
  | ApiError nat
  | BlobError
  | DbError

text \<open>What a call of \<^verbatim>\<open>getEmbeddingWithRetry\<close> did: its result, the number of calls of
  the embedding API it made, and the pauses it took (\<^verbatim>\<open>sleep(backoffMs)\<close>), in
  milliseconds and in order.\<close>

record retry_outcome =
  outcome :: "error + embedding"
  attempts :: nat
  backoffs :: "nat list"

text \<open>
  The loop \<^verbatim>\<open>for (attempt = 1; attempt <= maxRetries; attempt++)\<close>. The argument \<open>api\<close>
  gives, for each attempt, what \<^verbatim>\<open>openai.embeddings.create\<close> followed by
  \<^verbatim>\<open>response.data[0].embedding\<close> does at that attempt: the embedding, or the error thrown.
\<close>

function retry_from ::
  "(nat \<Rightarrow> error + embedding) \<Rightarrow> nat \<Rightarrow> nat \<Rightarrow> nat list \<Rightarrow> retry_outcome" where
  "retry_from api maxRetries attempt slept =
     (if attempt \<le> maxRetries then
        (case api attempt of
           Inr emb \<Rightarrow> \<lparr>outcome = Inr emb, attempts = attempt, backoffs = slept\<rparr>
         | Inl e \<Rightarrow>
             if attempt = maxRetries
             then \<lparr>outcome = Inl e, attempts = attempt, backoffs = slept\<rparr>
             else retry_from api maxRetries (attempt + 1)
                    (slept @ [2 ^ (attempt - 1) * 1000]))
      else \<lparr>outcome = Inl MaxRetriesExceeded, attempts = attempt - 1, backoffs = slept\<rparr>)"
  by pat_completeness auto
termination
  by (relation "measure (\<lambda>(api, maxRetries, attempt, slept). Suc maxRetries - attempt)") auto

declare retry_from.simps [simp del]

definition getEmbeddingWithRetry :: "(nat \<Rightarrow> error + embedding) \<Rightarrow> nat \<Rightarrow> retry_outcome" where
  "getEmbeddingWithRetry api maxRetries = retry_from api maxRetries 1 []"

section \<open>The stored documents and chunks\<close>

datatype status = UPLOADED | PROCESSING | READY | ERROR

text \<open>A row of \<^verbatim>\<open>rag.documents\<close>, with the fields of its \<^verbatim>\<open>metadata\<close> object that the
  ingestion and the query read or write. The time stamps of a document
  (\<^verbatim>\<open>created_at\<close>, \<^verbatim>\<open>updated_at\<close>, \<^verbatim>\<open>processed_at\<close>) are left out.\<close>

record doc_row =
  doc_row_id :: nat
  title :: jsstring
  doc_content :: jsstring
  md_status :: status
  md_doc_id :: "jsstring option"
  md_blob_path :: "jsstring option"
  md_original_filename :: jsstring
  md_mimetype :: jsstring
  md_chunks_count :: "nat option"
  md_total_tokens :: "nat option"

text \<open>
  A row of \<^verbatim>\<open>rag.embeddings\<close>. The column \<^verbatim>\<open>content_hash\<close> is \<^verbatim>\<open>UNIQUE\<close> and may be
  \<^verbatim>\<open>NULL\<close>. The table has a column \<^verbatim>\<open>created_at\<close>; the migrations give it no column
  \<^verbatim>\<open>updated_at\<close>, and the field \<open>updated_at\<close> is \<open>None\<close> in every row of such a table.
\<close>

record emb_row =
  row_id :: nat
  document_id :: nat
  chunk_index :: nat
  content :: jsstring
  content_hash :: "jsstring option"
  embedding :: embedding
  token_count :: nat
  created_at :: nat
  updated_at :: "nat option"

text \<open>
  The columns of the two tables, as \<^verbatim>\<open>db-migrate.ts\<close> creates them (both migrations
  under \<^verbatim>\<open>src\<close> agree, and no statement alters the tables). The database refuses a
  statement that names a column its table does not have.
\<close>

definition documents_columns :: "jsstring list" where
  "documents_columns =
     [js ''id'', js ''title'', js ''content'', js ''embedding'', js ''metadata'',
      js ''source_url'', js ''document_type'', js ''created_by'', js ''created_at'',
      js ''updated_at'']"

definition embeddings_columns :: "jsstring list" where
  "embeddings_columns =
     [js ''id'', js ''document_id'', js ''chunk_index'', js ''content'', js ''content_hash'',
      js ''embedding'', js ''token_count'', js ''created_at'']"

definition statement_ok :: "jsstring list \<Rightarrow> jsstring list \<Rightarrow> bool" where
  "statement_ok named columns \<longleftrightarrow> list_all (\<lambda>c. c \<in> set columns) named"

text \<open>The statements that one run of the ingestion handler sends to the database
  client; the cache lookup and the upsert are sent once per chunk.\<close>

datatype db_op =
    OpConnect
  | OpSelectDocument
  | OpSetProcessing
  | OpSelectCached nat
  | OpUpsert nat
  | OpSetReady
  | OpEnd
  | OpErrConnect
  | OpErrMark

text \<open>
  The state that a run changes: the two tables, the sequence behind the \<^verbatim>\<open>SERIAL\<close>
  key of \<^verbatim>\<open>rag.embeddings\<close>, the record of the calls of the embedding API (the text
  sent, once per attempt), and the record of what each chunk's callback in
  \<^verbatim>\<open>processEmbeddingsBatch\<close> resolved to (\<^verbatim>\<open>{ chunkIndex, success }\<close>).
\<close>

record world =
  documents :: "doc_row list"
  embeddings :: "emb_row list"
  emb_seq :: nat
  api_log :: "jsstring list"
  settled :: "(nat \<times> bool) list"

text \<open>
  What a run is given from outside: the SHA-256 digest in hexadecimal, the behaviour of
  the embedding API (for the chunk with a given index, at a given attempt), which
  database statements throw for a reason of their own (a lost connection, say), the
  \<^verbatim>\<open>CURRENT_TIMESTAMP\<close> of the database, the blob store, the fetch of a URL (status and
  body), the path of a URL (\<open>None\<close> where \<^verbatim>\<open>new URL\<close> throws), and the text extraction
  libraries.
\<close>

record env =
  sha256_hex :: "jsstring \<Rightarrow> jsstring"
  embed_api :: "nat \<Rightarrow> nat \<Rightarrow> error + embedding"
  db_fails :: "db_op \<Rightarrow> bool"
  db_now :: nat
  blob_get :: "jsstring \<Rightarrow> error + bytes option"
  http_fetch :: "jsstring \<Rightarrow> error + nat \<times> bytes"
  url_pathname :: "jsstring \<Rightarrow> jsstring option"
  pdf_parse :: "bytes \<Rightarrow> error + jsstring"
  mammoth_extract :: "bytes \<Rightarrow> error + jsstring"
  utf8_decode :: "bytes \<Rightarrow> jsstring"

text \<open>A statement throws when the database refuses it, or for a reason of its own.\<close>

definition statement_fails :: "env \<Rightarrow> db_op \<Rightarrow> jsstring list \<Rightarrow> jsstring list \<Rightarrow> bool" where
  "statement_fails env op named columns =
     (if statement_ok named columns then db_fails env op else True)"

text \<open>A string or array that may be absent is truthy when it is present and not empty.\<close>

definition truthy :: "'a list option \<Rightarrow> bool" where
  "truthy s \<longleftrightarrow> s \<noteq> None \<and> s \<noteq> Some []"

section \<open>Batch processing of the chunks\<close>

text \<open>\<^verbatim>\<open>generateContentHash\<close>\<close>

definition generateContentHash :: "env \<Rightarrow> jsstring \<Rightarrow> jsstring" where
  "generateContentHash env text = sha256_hex env text"

text \<open>
  \<^verbatim>\<open>SELECT embedding FROM rag.embeddings WHERE content_hash = $1\<close>, and then
  \<^verbatim>\<open>rows[0].embedding\<close> when there is a row. The statement names columns that the table
  has. The database client hands the vector of the row back as its text.
\<close>

definition lookup_cached ::
  "env \<Rightarrow> emb_row list \<Rightarrow> nat \<Rightarrow> jsstring \<Rightarrow> error + embedding option" where
  "lookup_cached env table chunkIndex chunk =
     (if statement_fails env (OpSelectCached chunkIndex)
           [js ''embedding'', js ''content_hash''] embeddings_columns
      then Inl DbError
      else Inr (map_option embedding
                  (find (\<lambda>r. content_hash r = Some (generateContentHash env chunk)) table)))"

text \<open>
  \<^verbatim>\<open>INSERT INTO rag.embeddings (document_id, chunk_index, content, content_hash,
  embedding, token_count, created_at) VALUES (...) ON CONFLICT (content_hash) DO UPDATE
  SET document_id = EXCLUDED.document_id, chunk_index = EXCLUDED.chunk_index,
  updated_at = CURRENT_TIMESTAMP\<close>.
  The columns that the statement names are those of its column list and those of its
  \<^verbatim>\<open>SET\<close> list.
\<close>

definition upsert_insert_columns :: "jsstring list" where
  "upsert_insert_columns =
     [js ''document_id'', js ''chunk_index'', js ''content'', js ''content_hash'',
      js ''embedding'', js ''token_count'', js ''created_at'']"

definition upsert_set_columns :: "jsstring list" where
  "upsert_set_columns = [js ''document_id'', js ''chunk_index'', js ''updated_at'']"

text \<open>
  The statement on a table that has all the columns it names: a row under the content
  hash gets the three assignments of the \<^verbatim>\<open>SET\<close> list, and without such a row the new row
  is added. The key of the proposed row is drawn from the sequence before the conflict
  is seen.
\<close>

definition apply_upsert ::
  "env \<Rightarrow> nat \<Rightarrow> nat \<Rightarrow> jsstring \<Rightarrow> jsstring \<Rightarrow> embedding \<Rightarrow> nat \<Rightarrow> world \<Rightarrow> world" where
  "apply_upsert env dbDocId chunkIndex chunk contentHash emb tokenCount w =
     (if list_ex (\<lambda>r. content_hash r = Some contentHash) (embeddings w)
      then w\<lparr>embeddings :=
               map (\<lambda>r. if content_hash r = Some contentHash
                        then r\<lparr>document_id := dbDocId, chunk_index := chunkIndex,
                               updated_at := Some (db_now env)\<rparr>
                        else r) (embeddings w),
             emb_seq := Suc (emb_seq w)\<rparr>
      else w\<lparr>embeddings :=
               embeddings w @
                 [\<lparr>row_id = emb_seq w, document_id = dbDocId, chunk_index = chunkIndex,
                   content = chunk, content_hash = Some contentHash, embedding = emb,
                   token_count = tokenCount, created_at = db_now env, updated_at = None\<rparr>],
             emb_seq := Suc (emb_seq w)\<rparr>)"

text \<open>The statement as the database takes it: it is refused, and nothing is written,
  unless the table has every column that the statement names.\<close>

definition upsert_chunk ::
  "env \<Rightarrow> nat \<Rightarrow> nat \<Rightarrow> jsstring \<Rightarrow> jsstring \<Rightarrow> embedding \<Rightarrow> nat \<Rightarrow> world
     \<Rightarrow> error + world" where
  "upsert_chunk env dbDocId chunkIndex chunk contentHash emb tokenCount w =
     (if statement_fails env (OpUpsert chunkIndex)
           (upsert_insert_columns @ upsert_set_columns) embeddings_columns
      then Inl DbError
      else Inr (apply_upsert env dbDocId chunkIndex chunk contentHash emb tokenCount w))"

text \<open>A chunk is stored when the table has a row under its content hash.\<close>

definition stored :: "env \<Rightarrow> jsstring \<Rightarrow> emb_row list \<Rightarrow> bool" where
  "stored env chunk table \<longleftrightarrow>
     list_ex (\<lambda>r. content_hash r = Some (generateContentHash env chunk)) table"



text \<open>
  The callback that \<^verbatim>\<open>processEmbeddingsBatch\<close> maps over a batch, from the moment the
  cache lookup has answered (\<open>looked\<close>). After a hit, \<^verbatim>\<open>embedding\<close> is the text that the
  client handed back, \<^verbatim>\<open>embedding.join\<close> is not a function, and building the parameters
  of the upsert throws before the statement is sent. After a miss the callback calls
  \<^verbatim>\<open>getEmbeddingWithRetry\<close> and sends the upsert. Whatever throws is caught, and the
  callback resolves to \<^verbatim>\<open>{ chunkIndex, success: false }\<close>.
\<close>

definition settle_chunk ::
  "env \<Rightarrow> nat \<Rightarrow> nat \<Rightarrow> jsstring \<Rightarrow> error + embedding option \<Rightarrow> world \<Rightarrow> world" where
  "settle_chunk env dbDocId chunkIndex chunk looked w =
     (case looked of
        Inl e \<Rightarrow> w\<lparr>settled := settled w @ [(chunkIndex, False)]\<rparr>
      | Inr (Some cached) \<Rightarrow> w\<lparr>settled := settled w @ [(chunkIndex, False)]\<rparr>
      | Inr None \<Rightarrow>
          (let r = getEmbeddingWithRetry (embed_api env chunkIndex) 3;
               w1 = w\<lparr>api_log := api_log w @ replicate (attempts r) chunk\<rparr>
           in case outcome r of
                Inl e \<Rightarrow> w1\<lparr>settled := settled w @ [(chunkIndex, False)]\<rparr>
              | Inr emb \<Rightarrow>
                  (case upsert_chunk env dbDocId chunkIndex chunk
                          (generateContentHash env chunk) emb (estimateTokens chunk) w1 of
                     Inl e \<Rightarrow> w1\<lparr>settled := settled w @ [(chunkIndex, False)]\<rparr>
                   | Inr w2 \<Rightarrow> w2\<lparr>settled := settled w @ [(chunkIndex, True)]\<rparr>)))"

text \<open>
  The calls of the embedding API that the callback of one chunk makes, given the table
  that its lookup sees: none when the lookup throws or finds the chunk stored, and
  otherwise one for each attempt of \<^verbatim>\<open>getEmbeddingWithRetry\<close>.
\<close>

definition embedding_calls :: "env \<Rightarrow> emb_row list \<Rightarrow> nat \<Rightarrow> jsstring \<Rightarrow> jsstring list" where
  "embedding_calls env table chunkIndex chunk =
     (if db_fails env (OpSelectCached chunkIndex) \<or> stored env chunk table then []
      else replicate (attempts (getEmbeddingWithRetry (embed_api env chunkIndex) 3)) chunk)"

text \<open>
  One batch. \<^verbatim>\<open>batch.map(async ...)\<close> starts every callback before any of them resumes,
  and each callback runs up to its first \<^verbatim>\<open>await\<close>, the cache lookup: the lookups of a
  batch are all sent before any upsert of that batch, and they see the table as it is
  when the batch starts. The callbacks then settle; the model lets them settle in the
  order of the chunks.
\<close>

definition process_batch :: "env \<Rightarrow> nat \<Rightarrow> nat \<Rightarrow> jsstring list \<Rightarrow> world \<Rightarrow> world" where
  "process_batch env dbDocId i batch w =
     fold (\<lambda>(chunkIndex, chunk).
             settle_chunk env dbDocId chunkIndex chunk
               (lookup_cached env (embeddings w) chunkIndex chunk))
          (enumerate i batch) w"

text \<open>The loop \<^verbatim>\<open>for (i = 0; i < chunks.length; i += batchSize)\<close> with \<open>batchSize = 10\<close>. The
  pause of one second between two batches changes nothing in the state.\<close>

function batches_from :: "env \<Rightarrow> nat \<Rightarrow> jsstring list \<Rightarrow> nat \<Rightarrow> world \<Rightarrow> world" where
  "batches_from env dbDocId chunks i w =
     (if i < length chunks
      then batches_from env dbDocId chunks (i + 10)
             (process_batch env dbDocId i (take 10 (drop i chunks)) w)
      else w)"
  by pat_completeness auto
termination
  by (relation "measure (\<lambda>(env, dbDocId, chunks, i, w). length chunks - i)") auto

declare batches_from.simps [simp del]

definition processEmbeddingsBatch :: "env \<Rightarrow> jsstring list \<Rightarrow> nat \<Rightarrow> world \<Rightarrow> world" where
  "processEmbeddingsBatch env chunks dbDocId w = batches_from env dbDocId chunks 0 w"

section \<open>Text extraction\<close>

text \<open>\<^verbatim>\<open>haystack.includes(needle)\<close>\<close>

definition js_includes :: "jsstring \<Rightarrow> jsstring \<Rightarrow> bool" where
  "js_includes haystack needle \<longleftrightarrow>
     list_ex (\<lambda>i. take (length needle) (drop i haystack) = needle) [0..<Suc (length haystack)]"

text \<open>\<^verbatim>\<open>toLowerCase\<close> on the letters A to Z; no other code unit becomes a letter of
  \<^verbatim>\<open>pdf\<close>, \<^verbatim>\<open>docx\<close> or \<^verbatim>\<open>txt\<close>, which is all the result is compared with.\<close>

definition to_lower :: "jsstring \<Rightarrow> jsstring" where
  "to_lower s = map (\<lambda>c. if 0x41 \<le> c \<and> c \<le> 0x5A then c + 0x20 else c) s"

text \<open>\<^verbatim>\<open>filename.split('.').pop()?.toLowerCase()\<close>\<close>

definition file_ext :: "jsstring \<Rightarrow> jsstring" where
  "file_ext filename = to_lower (rev (takeWhile (\<lambda>c. c \<noteq> 0x2E) (rev filename)))"

text \<open>\<^verbatim>\<open>extractText\<close>: a failure of an extraction library is thrown again as
  \<^verbatim>\<open>Failed to extract text from ...\<close>.\<close>

definition extractText :: "env \<Rightarrow> bytes \<Rightarrow> jsstring \<Rightarrow> jsstring \<Rightarrow> error + jsstring" where
  "extractText env buffer filename mimetype =
     (let ext = file_ext filename in
      if js_includes mimetype (js ''pdf'') \<or> ext = js ''pdf'' then
        (case pdf_parse env buffer of Inl e \<Rightarrow> Inl ExtractionFailed | Inr t \<Rightarrow> Inr t)
      else if js_includes mimetype (js ''word'') \<or> ext = js ''docx'' then
        (case mammoth_extract env buffer of Inl e \<Rightarrow> Inl ExtractionFailed | Inr t \<Rightarrow> Inr t)
      else Inr (utf8_decode env buffer))"

section \<open>The ingestion handler\<close>

text \<open>The parsed request body of the handler of \<^verbatim>\<open>ingest.ts\<close> (the variant with the
  embedding cache and the retries).\<close>

record ingest_input =
  doc_id :: "jsstring option"
  tenant_id :: "jsstring option"
  blob_key :: "jsstring option"
  blob_url :: "jsstring option"

text \<open>The two responses: status 200 with \<^verbatim>\<open>{ success: true, doc_id, chunks_processed,
  status: 'READY' }\<close>, and status 500 with \<^verbatim>\<open>{ success: false, error }\<close>.\<close>

datatype ingest_response =
    Ingested "jsstring option" nat
  | IngestFailed error

text \<open>
  \<^verbatim>\<open>SELECT id, title, metadata FROM rag.documents WHERE metadata->>"doc_id" = $1\<close> (or
  \<^verbatim>\<open>"blob_path"\<close>) and \<^verbatim>\<open>rows[0]\<close>; no row is \<^verbatim>\<open>Document not found\<close>. A name in double
  quotes is the name of a column, so the statement names the columns \<^verbatim>\<open>id\<close>, \<^verbatim>\<open>title\<close>,
  \<^verbatim>\<open>metadata\<close> and the quoted one. \<open>P\<close> is the selection of an accepted statement.
\<close>

definition select_document ::
  "env \<Rightarrow> jsstring \<Rightarrow> (doc_row \<Rightarrow> bool) \<Rightarrow> world \<Rightarrow> error + doc_row" where
  "select_document env quoted P w =
     (if statement_fails env OpSelectDocument
           [js ''id'', js ''title'', js ''metadata'', quoted] documents_columns
      then Inl DbError
      else (case filter P (documents w) of
              [] \<Rightarrow> Inl DocumentNotFound
            | d # ds \<Rightarrow> Inr d))"

text \<open>\<^verbatim>\<open>u.pathname.replace(/^\//, '')\<close>\<close>

definition strip_slash :: "jsstring \<Rightarrow> jsstring" where
  "strip_slash p = (case p of [] \<Rightarrow> [] | c # cs \<Rightarrow> if c = 0x2F then cs else p)"

text \<open>The document is looked up by \<^verbatim>\<open>doc_id\<close>, else by \<^verbatim>\<open>blob_key\<close>, else by the key
  derived from \<^verbatim>\<open>blob_url\<close>; the handler means the members \<^verbatim>\<open>doc_id\<close> and \<^verbatim>\<open>blob_path\<close> of
  \<^verbatim>\<open>metadata\<close>, and writes their names in double quotes.\<close>

definition resolve_document :: "env \<Rightarrow> ingest_input \<Rightarrow> world \<Rightarrow> error + doc_row" where
  "resolve_document env input w =
     (if truthy (doc_id input)
      then select_document env (js ''doc_id'') (\<lambda>d. md_doc_id d = doc_id input) w
      else if truthy (blob_key input)
      then select_document env (js ''blob_path'') (\<lambda>d. md_blob_path d = blob_key input) w
      else (case blob_url input of
              None \<Rightarrow> Inl DocumentNotFound
            | Some u \<Rightarrow>
                if u = [] then Inl DocumentNotFound
                else (let derivedKey =
                            (case url_pathname env u of None \<Rightarrow> [] | Some p \<Rightarrow> strip_slash p)
                      in if derivedKey = [] then Inl UnableToDeriveKey
                         else select_document env (js ''blob_path'')
                                (\<lambda>d. md_blob_path d = Some derivedKey) w)))"

text \<open>\<^verbatim>\<open>fetch(blob_url)\<close>, \<^verbatim>\<open>resp.ok\<close> and \<^verbatim>\<open>resp.arrayBuffer()\<close>, when a URL is given.\<close>

definition fetch_url :: "env \<Rightarrow> jsstring option \<Rightarrow> error + bytes option" where
  "fetch_url env url =
     (case url of
        None \<Rightarrow> Inr None
      | Some u \<Rightarrow>
          if u = [] then Inr None
          else (case http_fetch env u of
                  Inl e \<Rightarrow> Inl e
                | Inr (st, body) \<Rightarrow>
                    if 200 \<le> st \<and> st \<le> 299 then Inr (Some body) else Inl (FetchFailed st)))"

text \<open>The raw bytes: from the blob store under \<^verbatim>\<open>metadata.blob_path || blob_key\<close>, else
  fetched from \<^verbatim>\<open>blob_url\<close>. The blob store answers with a string, which counts as
  missing when it is empty.\<close>

definition fetch_blob :: "env \<Rightarrow> doc_row \<Rightarrow> ingest_input \<Rightarrow> error + bytes" where
  "fetch_blob env doc input =
     (let blobPath = (if truthy (md_blob_path doc) then md_blob_path doc else blob_key input);
          fileBuffer =
            (if truthy blobPath then
               (case blobPath of
                  None \<Rightarrow> Inr None
                | Some p \<Rightarrow>
                    (case blob_get env p of
                       Inl e \<Rightarrow> Inl e
                     | Inr blobData \<Rightarrow> Inr (if truthy blobData then blobData else None)))
             else fetch_url env (blob_url input))
      in case fileBuffer of
           Inl e \<Rightarrow> Inl e
         | Inr None \<Rightarrow> Inl FileNotFound
         | Inr (Some b) \<Rightarrow> Inr b)"

text \<open>
  The two updates of the document write the whole \<^verbatim>\<open>metadata\<close> object: the object that
  was read when the document was resolved (\<open>src\<close>), with the new status and, for
  \<open>READY\<close>, the chunk count and the token total.
\<close>

definition write_metadata ::
  "doc_row \<Rightarrow> status \<Rightarrow> nat option \<Rightarrow> nat option \<Rightarrow> doc_row \<Rightarrow> doc_row" where
  "write_metadata src st chunks_count total_tokens d =
     d\<lparr>md_status := st, md_doc_id := md_doc_id src, md_blob_path := md_blob_path src,
       md_original_filename := md_original_filename src, md_mimetype := md_mimetype src,
       md_chunks_count := chunks_count, md_total_tokens := total_tokens\<rparr>"

text \<open>\<^verbatim>\<open>UPDATE rag.documents SET metadata = $1, updated_at = CURRENT_TIMESTAMP WHERE id =
  $2\<close> with status \<open>PROCESSING\<close>.\<close>

definition set_processing :: "doc_row \<Rightarrow> doc_row list \<Rightarrow> doc_row list" where
  "set_processing doc docs =
     map (\<lambda>d. if doc_row_id d = doc_row_id doc
              then write_metadata doc PROCESSING (md_chunks_count doc) (md_total_tokens doc) d
              else d) docs"

text \<open>\<^verbatim>\<open>UPDATE rag.documents SET content = $1, metadata = $2, updated_at =
  CURRENT_TIMESTAMP WHERE id = $3\<close> with status \<open>READY\<close>, \<^verbatim>\<open>chunks_count: chunks.length\<close> and
  the sum of the token estimates.\<close>

definition set_ready :: "doc_row \<Rightarrow> jsstring \<Rightarrow> jsstring list \<Rightarrow> doc_row list \<Rightarrow> doc_row list" where
  "set_ready doc cleanedText chunks docs =
     map (\<lambda>d. if doc_row_id d = doc_row_id doc
              then (write_metadata doc READY (Some (length chunks))
                      (Some (sum_list (map estimateTokens chunks))) d)
                     \<lparr>doc_content := take 10000 cleanedText\<rparr>
              else d) docs"

text \<open>
  The handler from the call of \<^verbatim>\<open>processEmbeddingsBatch\<close> to the response: the chunks
  are processed, the document is set to \<open>READY\<close>, and the response reports
  \<^verbatim>\<open>chunks_processed: chunks.length\<close>.
\<close>

definition handler_persist ::
  "env \<Rightarrow> ingest_input \<Rightarrow> doc_row \<Rightarrow> jsstring \<Rightarrow> jsstring list \<Rightarrow> world
     \<Rightarrow> (error + ingest_response) \<times> world" where
  "handler_persist env input doc cleanedText chunks w =
     (let w1 = processEmbeddingsBatch env chunks (doc_row_id doc) w
      in if statement_fails env OpSetReady
              [js ''content'', js ''metadata'', js ''updated_at'', js ''id''] documents_columns
         then (Inl DbError, w1)
         else (Inr (Ingested (doc_id input) (length chunks)),
               w1\<lparr>documents := set_ready doc cleanedText chunks (documents w1)\<rparr>))"

text \<open>
  The inner \<^verbatim>\<open>try\<close> block of the handler. \<open>Inl\<close> is an error thrown, and \<open>None\<close> is a run
  that does not come back from \<^verbatim>\<open>chunkText\<close>.
\<close>

definition handler_core ::
  "env \<Rightarrow> ingest_input \<Rightarrow> world \<Rightarrow> ((error + ingest_response) \<times> world) option" where
  "handler_core env input w =
     (case resolve_document env input w of
        Inl e \<Rightarrow> Some (Inl e, w)
      | Inr doc \<Rightarrow>
          if statement_fails env OpSetProcessing
               [js ''metadata'', js ''updated_at'', js ''id''] documents_columns
          then Some (Inl DbError, w)
          else
            (let w1 = w\<lparr>documents := set_processing doc (documents w)\<rparr> in
             case fetch_blob env doc input of
               Inl e \<Rightarrow> Some (Inl e, w1)
             | Inr fileBuffer \<Rightarrow>
                 (case extractText env fileBuffer (md_original_filename doc) (md_mimetype doc) of
                    Inl e \<Rightarrow> Some (Inl e, w1)
                  | Inr rawText \<Rightarrow>
                      (let cleanedText = cleanText rawText in
                       if js_trim cleanedText = [] then Some (Inl NoTextContent, w1)
                       else (case chunkText cleanedText of
                               None \<Rightarrow> None
                             | Some chunks \<Rightarrow>
                                 Some (handler_persist env input doc cleanedText chunks w1))))))"

text \<open>
  The outer \<^verbatim>\<open>try\<close> block: the body is parsed (\<open>None\<close> is a body that is not JSON), an
  identifier is required, the client connects, and \<^verbatim>\<open>client.end()\<close> runs in the
  \<^verbatim>\<open>finally\<close> clause, where an error replaces the outcome of the inner block.
\<close>

definition handler_try ::
  "env \<Rightarrow> ingest_input option \<Rightarrow> world \<Rightarrow> ((error + ingest_response) \<times> world) option" where
  "handler_try env body w =
     (case body of
        None \<Rightarrow> Some (Inl InvalidJson, w)
      | Some input \<Rightarrow>
          if \<not> truthy (doc_id input) \<and> \<not> truthy (blob_key input) \<and> \<not> truthy (blob_url input)
          then Some (Inl MissingIdentifier, w)
          else if db_fails env OpConnect then Some (Inl DbError, w)
          else (case handler_core env input w of
                  None \<Rightarrow> None
                | Some (r, w') \<Rightarrow>
                    if db_fails env OpEnd then Some (Inl DbError, w') else Some (r, w')))"

text \<open>
  The \<^verbatim>\<open>catch\<close> block: a new client connects, the body is parsed again, and when it
  carries a \<^verbatim>\<open>doc_id\<close> the documents with that \<^verbatim>\<open>doc_id\<close> are set to \<open>ERROR\<close>
  (\<^verbatim>\<open>WHERE metadata->>'doc_id' = $1\<close>, the name in single quotes: a member of
  \<^verbatim>\<open>metadata\<close>). An error in this block is caught and logged, and the state is left as
  it is.
\<close>

definition mark_error :: "env \<Rightarrow> ingest_input option \<Rightarrow> world \<Rightarrow> world" where
  "mark_error env body w =
     (if db_fails env OpErrConnect then w
      else (case body of
              None \<Rightarrow> w
            | Some input \<Rightarrow>
                if truthy (doc_id input) then
                  (if statement_fails env OpErrMark
                        [js ''metadata'', js ''updated_at''] documents_columns
                   then w
                   else w\<lparr>documents :=
                            map (\<lambda>d. if md_doc_id d = doc_id input then d\<lparr>md_status := ERROR\<rparr>
                                     else d) (documents w)\<rparr>)
                else w))"

definition handler ::
  "env \<Rightarrow> ingest_input option \<Rightarrow> world \<Rightarrow> (ingest_response \<times> world) option" where
  "handler env body w =
     (case handler_try env body w of
        None \<Rightarrow> None
      | Some (Inr response, w') \<Rightarrow> Some (response, w')
      | Some (Inl e, w') \<Rightarrow> Some (IngestFailed e, mark_error env body w'))"

section \<open>The query engine\<close>

text \<open>
  There are two variants of the query function: \<^verbatim>\<open>rag-query.ts\<close> beside
  \<^verbatim>\<open>shared/utils.ts\<close>, which validates its input against a schema, limits the request
  rate, gives every request an identifier and logs the retrieval; and
  \<^verbatim>\<open>api/rag-query.ts\<close>, which does none of these. Their \<^verbatim>\<open>vectorSearch\<close> and
  \<^verbatim>\<open>packContextWithCitations\<close> are the same. The definitions of the second variant carry
  the suffix \<open>_api\<close>.
\<close>

record ChunkResult =
  cr_id :: nat
  cr_content :: jsstring
  cr_chunk_index :: nat
  similarity :: rat
  document_title :: jsstring

text \<open>The database statements of a query, and the calls that a query makes to the
  embedding API, to the search and to the chat completion API.\<close>

datatype q_op = QConnect | QSearch | QLogRetrieval | QEnd

datatype call = CallEmbedding jsstring | CallSearch | CallCompletion | CallStream

text \<open>
  What a query is given from outside. An error is the message of the error thrown.
  \<open>distance\<close> is the cosine distance operator \<^verbatim>\<open><=>\<close> of the vector extension. The chat
  completion answers with the content of the first choice (\<open>None\<close> when there is none);
  the streamed completion answers with the content of each part in order, and with the
  error that ends the iteration early, if any.
\<close>

record qenv =
  api_key_set :: bool
  embed_query :: "jsstring \<Rightarrow> jsstring + embedding"
  distance :: "embedding \<Rightarrow> embedding \<Rightarrow> rat"
  q_fails :: "q_op \<Rightarrow> jsstring option"
  chat_completion :: "jsstring \<Rightarrow> jsstring \<Rightarrow> jsstring + jsstring option"
  chat_stream :: "jsstring \<Rightarrow> jsstring \<Rightarrow> jsstring + jsstring option list \<times> jsstring option"
  request_id :: jsstring
  latency_ms :: nat

record retrieval_log =
  rl_request_id :: jsstring
  rl_query_text :: jsstring
  rl_chunk_ids :: "nat list"
  rl_latency_ms :: nat
  rl_doc_id :: "jsstring option"
  rl_top_k :: rat

record qstate =
  q_documents :: "doc_row list"
  q_embeddings :: "emb_row list"
  retrieval_logs :: "retrieval_log list"
  rateLimitMap :: "(jsstring \<times> nat \<times> nat) list"
  calls :: "call list"

subsection \<open>Vector search\<close>

text \<open>
  The rows of the query of \<^verbatim>\<open>vectorSearch\<close> before \<^verbatim>\<open>LIMIT\<close>: the chunks joined with
  their documents, restricted to the documents with the given \<^verbatim>\<open>doc_id\<close> when
  \<^verbatim>\<open>if (docId)\<close> holds, in the order of the distance to the query vector.
\<close>

definition search_rows ::
  "(embedding \<Rightarrow> embedding \<Rightarrow> rat) \<Rightarrow> doc_row list \<Rightarrow> emb_row list \<Rightarrow> embedding
     \<Rightarrow> jsstring option \<Rightarrow> (emb_row \<times> doc_row) list" where
  "search_rows cosdist docs embs queryEmbedding docId =
     (let joined =
            concat (map (\<lambda>e. map (\<lambda>d. (e, d))
                                (filter (\<lambda>d. document_id e = doc_row_id d) docs)) embs);
          selected =
            (if truthy docId then filter (\<lambda>(e, d). md_doc_id d = docId) joined else joined)
      in sort_key (\<lambda>(e, d). cosdist (embedding e) queryEmbedding) selected)"

definition to_result ::
  "(embedding \<Rightarrow> embedding \<Rightarrow> rat) \<Rightarrow> embedding \<Rightarrow> emb_row \<times> doc_row \<Rightarrow> ChunkResult" where
  "to_result cosdist queryEmbedding row =
     (case row of (e, d) \<Rightarrow>
        \<lparr>cr_id = row_id e, cr_content = content e, cr_chunk_index = chunk_index e,
         similarity = 1 - cosdist (embedding e) queryEmbedding, document_title = title d\<rparr>)"

text \<open>\<^verbatim>\<open>LIMIT\<close> takes a whole number that is not negative; the database rejects any other
  number.\<close>

definition vectorSearch ::
  "(embedding \<Rightarrow> embedding \<Rightarrow> rat) \<Rightarrow> doc_row list \<Rightarrow> emb_row list \<Rightarrow> embedding
     \<Rightarrow> jsstring option \<Rightarrow> rat \<Rightarrow> jsstring + ChunkResult list" where
  "vectorSearch cosdist docs embs queryEmbedding docId topK =
     (if topK \<noteq> of_int \<lfloor>topK\<rfloor> then Inl (js ''invalid input syntax for type bigint'')
      else if topK < 0 then Inl (js ''LIMIT must not be negative'')
      else Inr (map (to_result cosdist queryEmbedding)
                  (take (nat \<lfloor>topK\<rfloor>) (search_rows cosdist docs embs queryEmbedding docId))))"

subsection \<open>Context packing\<close>

function show_nat :: "nat \<Rightarrow> jsstring" where
  "show_nat n =
     (if n < 10 then [0x30 + of_nat n]
      else show_nat (n div 10) @ [0x30 + of_nat (n mod 10)])"
  by pat_completeness auto
termination
  by (relation "measure id") auto

declare show_nat.simps [simp del]

fun cite :: "nat \<Rightarrow> ChunkResult list \<Rightarrow> jsstring" where
  "cite index [] = []"
| "cite index (chunk # chunks) =
     js ''['' @ show_nat (index + 1) @ js ''] '' @ cr_content chunk @ [0x0A, 0x0A]
       @ cite (index + 1) chunks"

definition packContextWithCitations :: "ChunkResult list \<Rightarrow> jsstring" where
  "packContextWithCitations chunks =
     js ''Based on the following information:'' @ [0x0A, 0x0A] @ cite 0 chunks
     @ js ''Please answer the user's question using the information above. ''
     @ js ''Include citations in your response using the format [1], [2], etc. ''
     @ js ''If the information doesn't contain relevant details to answer the question, say so clearly.''"

subsection \<open>Streamed answers\<close>

text \<open>The events of the stream; on the wire each is one \<^verbatim>\<open>data: <json>\<close> frame with the
  \<^verbatim>\<open>type\<close> \<^verbatim>\<open>metadata\<close>, \<^verbatim>\<open>chunks\<close>, \<^verbatim>\<open>token\<close>, \<^verbatim>\<open>end\<close> or \<^verbatim>\<open>error\<close>.\<close>

datatype sse_event =
    EvMetadata jsstring nat
  | EvChunks "ChunkResult list"
  | EvToken jsstring
  | EvEnd
  | EvError jsstring

fun is_terminal :: "sse_event \<Rightarrow> bool" where
  "is_terminal EvEnd = True"
| "is_terminal (EvError m) = True"
| "is_terminal e = False"

text \<open>\<^verbatim>\<open>content.substring(0, 200) + '...'\<close>\<close>

definition display_chunk :: "ChunkResult \<Rightarrow> ChunkResult" where
  "display_chunk chunk = chunk\<lparr>cr_content := take 200 (cr_content chunk) @ js ''...''\<rparr>"

text \<open>The loop over the parts of the streamed completion: a part with content adds a
  token event, a part without content (or with the empty string) adds nothing.\<close>

fun token_events :: "jsstring option list \<Rightarrow> sse_event list" where
  "token_events [] = []"
| "token_events (None # parts) = token_events parts"
| "token_events (Some c # parts) =
     (if c \<noteq> [] then EvToken c # token_events parts else token_events parts)"

text \<open>
  \<^verbatim>\<open>streamChatCompletion\<close> of \<^verbatim>\<open>rag-query.ts\<close>. The events are collected in a local
  string that is returned after the loop; an error thrown by the client, by the request
  or in the loop is caught, and the frame of the error event alone is returned.
\<close>

definition streamChatCompletion ::
  "qenv \<Rightarrow> jsstring \<Rightarrow> jsstring \<Rightarrow> ChunkResult list \<Rightarrow> jsstring \<Rightarrow> nat \<Rightarrow> sse_event list" where
  "streamChatCompletion env context prompt chunks requestId latencyMs =
     (if \<not> api_key_set env
      then [EvError (js ''OPENAI_API_KEY environment variable is required'')]
      else (case chat_stream env context prompt of
              Inl m \<Rightarrow> [EvError m]
            | Inr (parts, Some m) \<Rightarrow> [EvError m]
            | Inr (parts, None) \<Rightarrow>
                [EvMetadata requestId latencyMs, EvChunks (map display_chunk chunks)]
                  @ token_events parts @ [EvEnd]))"

text \<open>\<^verbatim>\<open>streamChatCompletion\<close> of \<^verbatim>\<open>api/rag-query.ts\<close>: no request identifier, no
  metadata event.\<close>

definition streamChatCompletion_api ::
  "qenv \<Rightarrow> jsstring \<Rightarrow> jsstring \<Rightarrow> ChunkResult list \<Rightarrow> sse_event list" where
  "streamChatCompletion_api env context prompt chunks =
     (case chat_stream env context prompt of
        Inl m \<Rightarrow> [EvError m]
      | Inr (parts, Some m) \<Rightarrow> [EvError m]
      | Inr (parts, None) \<Rightarrow>
          [EvChunks (map display_chunk chunks)] @ token_events parts @ [EvEnd])"

subsection \<open>Request validation\<close>

text \<open>A parsed JSON value; a number is the rational that the literal denotes.\<close>

datatype json =
    JNull
  | JBool bool
  | JNum rat
  | JStr jsstring
  | JArr "json list"
  | JObj "(jsstring \<times> json) list"

text \<open>\<^verbatim>\<open>event.body\<close>: absent or empty, a string that is not JSON, or a string that parses.\<close>

datatype request_body = NoBody | BadJson | Parsed json

record QueryInput =
  prompt :: jsstring
  q_doc_id :: "jsstring option"
  top_k :: rat

datatype error_code =
    VALIDATION_ERROR
  | RATE_LIMITED
  | DATABASE_ERROR
  | EXTERNAL_API_ERROR
  | INTERNAL_ERROR
  | METHOD_NOT_ALLOWED
  | MISSING_REQUIRED_FIELD

text \<open>\<^verbatim>\<open>prompt: z.string().min(1).max(2000)\<close>\<close>

definition parse_prompt :: "json option \<Rightarrow> jsstring option" where
  "parse_prompt v =
     (case v of
        Some (JStr s) \<Rightarrow> if 1 \<le> length s \<and> length s \<le> 2000 then Some s else None
      | _ \<Rightarrow> None)"

text \<open>\<^verbatim>\<open>doc_id: z.string().optional()\<close>; the outer \<open>None\<close> is a value that is rejected.\<close>

definition parse_doc_id :: "json option \<Rightarrow> jsstring option option" where
  "parse_doc_id v =
     (case v of
        None \<Rightarrow> Some None
      | Some (JStr s) \<Rightarrow> Some (Some s)
      | _ \<Rightarrow> None)"

text \<open>\<^verbatim>\<open>top_k: z.number().int().min(1).max(20).optional().default(5)\<close>\<close>

definition parse_top_k :: "json option \<Rightarrow> rat option" where
  "parse_top_k v =
     (case v of
        None \<Rightarrow> Some 5
      | Some (JNum n) \<Rightarrow>
          if n = of_int \<lfloor>n\<rfloor> \<and> 1 \<le> n \<and> n \<le> 20 then Some n else None
      | _ \<Rightarrow> None)"

text \<open>\<^verbatim>\<open>QueryInputSchema.safeParse\<close>\<close>

definition QueryInputSchema :: "json \<Rightarrow> QueryInput option" where
  "QueryInputSchema v =
     (case v of
        JObj members \<Rightarrow>
          (case (parse_prompt (map_of members (js ''prompt'')),
                 parse_doc_id (map_of members (js ''doc_id'')),
                 parse_top_k (map_of members (js ''top_k''))) of
             (Some p, Some d, Some k) \<Rightarrow> Some \<lparr>prompt = p, q_doc_id = d, top_k = k\<rparr>
           | _ \<Rightarrow> None)
      | _ \<Rightarrow> None)"

text \<open>\<^verbatim>\<open>validateRequestBody\<close> of \<^verbatim>\<open>shared/utils.ts\<close> with this schema.\<close>

definition validateRequestBody :: "request_body \<Rightarrow> error_code + QueryInput" where
  "validateRequestBody body =
     (case body of
        NoBody \<Rightarrow> Inl MISSING_REQUIRED_FIELD
      | BadJson \<Rightarrow> Inl VALIDATION_ERROR
      | Parsed v \<Rightarrow>
          (case QueryInputSchema v of
             None \<Rightarrow> Inl VALIDATION_ERROR
           | Some input \<Rightarrow> Inr input))"

subsection \<open>Rate limiting\<close>

text \<open>\<^verbatim>\<open>checkRateLimit\<close>: the map holds, for each address, a count and the time at which
  its window ends; a window is 60000 ms and allows 60 requests.\<close>

definition checkRateLimit ::
  "nat \<Rightarrow> jsstring \<Rightarrow> (jsstring \<times> nat \<times> nat) list \<Rightarrow> bool \<times> (jsstring \<times> nat \<times> nat) list" where
  "checkRateLimit now ip m =
     (let m1 = filter (\<lambda>(k, count, resetTime). \<not> resetTime < now) m in
      case map_of m1 ip of
        None \<Rightarrow> (True, m1 @ [(ip, 1, now + 60000)])
      | Some (count, resetTime) \<Rightarrow>
          if resetTime < now
          then (True, map (\<lambda>(k, c, r). if k = ip then (k, 1, now + 60000) else (k, c, r)) m1)
          else if 60 \<le> count then (False, m1)
          else (True, map (\<lambda>(k, c, r). if k = ip then (k, c + 1, r) else (k, c, r)) m1))"

text \<open>The request, as far as the handlers read it.\<close>

record query_event =
  httpMethod :: jsstring
  headers :: "(jsstring \<times> jsstring) list"
  now :: nat

text \<open>\<^verbatim>\<open>getClientIP\<close>\<close>

definition getClientIP :: "query_event \<Rightarrow> jsstring" where
  "getClientIP event =
     (let forwarded =
            (case map_of (headers event) (js ''x-forwarded-for'') of
               None \<Rightarrow> []
             | Some v \<Rightarrow> js_trim (takeWhile (\<lambda>c. c \<noteq> 0x2C) v))
      in if forwarded \<noteq> [] then forwarded
         else if truthy (map_of (headers event) (js ''x-real-ip''))
         then (case map_of (headers event) (js ''x-real-ip'') of Some v \<Rightarrow> v | None \<Rightarrow> [])
         else if truthy (map_of (headers event) (js ''cf-connecting-ip''))
         then (case map_of (headers event) (js ''cf-connecting-ip'') of
                 Some v \<Rightarrow> v | None \<Rightarrow> [])
         else js ''unknown'')"

text \<open>\<^verbatim>\<open>event.headers.accept?.includes('text/event-stream')\<close>\<close>

definition acceptsSSE :: "query_event \<Rightarrow> bool" where
  "acceptsSSE event =
     (case map_of (headers event) (js ''accept'') of
        None \<Rightarrow> False
      | Some v \<Rightarrow> js_includes v (js ''text/event-stream''))"

subsection \<open>The query handlers\<close>

text \<open>
  The responses: an error made by \<^verbatim>\<open>createErrorResponse\<close> (status and code), an error
  of \<^verbatim>\<open>api/rag-query.ts\<close> (status and message), a JSON answer (request identifier,
  chunks, answer, latency; the identifier and the latency are absent in
  \<^verbatim>\<open>api/rag-query.ts\<close>), and an event stream.
\<close>

datatype query_response =
    ErrorResponse nat error_code
  | PlainError nat jsstring
  | JsonAnswer "jsstring option" "ChunkResult list" jsstring "nat option"
  | EventStream "sse_event list"

text \<open>The \<^verbatim>\<open>catch\<close> block of the handler of \<^verbatim>\<open>rag-query.ts\<close> picks the code from the
  message of the error.\<close>

definition classify_error :: "jsstring \<Rightarrow> query_response" where
  "classify_error m =
     (if js_includes m (js ''database'') \<or> js_includes m (js ''connection'')
      then ErrorResponse 500 DATABASE_ERROR
      else if js_includes m (js ''OpenAI'') \<or> js_includes m (js ''API'')
      then ErrorResponse 500 EXTERNAL_API_ERROR
      else ErrorResponse 500 INTERNAL_ERROR)"

text \<open>\<^verbatim>\<open>logRetrieval\<close>: an error of the insert is caught and logged.\<close>

definition logRetrieval :: "qenv \<Rightarrow> QueryInput \<Rightarrow> nat list \<Rightarrow> qstate \<Rightarrow> qstate" where
  "logRetrieval env input chunkIds s =
     (case q_fails env QLogRetrieval of
        Some m \<Rightarrow> s
      | None \<Rightarrow>
          s\<lparr>retrieval_logs := retrieval_logs s @
               [\<lparr>rl_request_id = request_id env, rl_query_text = prompt input,
                 rl_chunk_ids = chunkIds, rl_latency_ms = latency_ms env,
                 rl_doc_id = q_doc_id input, rl_top_k = top_k input\<rparr>]\<rparr>)"

text \<open>The search as a handler runs it: the statement may fail as a whole.\<close>

definition run_search :: "qenv \<Rightarrow> qstate \<Rightarrow> embedding \<Rightarrow> jsstring option \<Rightarrow> rat
    \<Rightarrow> jsstring + ChunkResult list" where
  "run_search env s queryEmbedding docId topK =
     (case q_fails env QSearch of
        Some m \<Rightarrow> Inl m
      | None \<Rightarrow>
          vectorSearch (distance env) (q_documents s) (q_embeddings s) queryEmbedding docId topK)"

definition no_results_answer :: jsstring where
  "no_results_answer = js ''No relevant information found in the knowledge base.''"

text \<open>\<^verbatim>\<open>completion.choices[0]?.message?.content || 'No response generated.'\<close>\<close>

definition answer_of :: "jsstring option \<Rightarrow> jsstring" where
  "answer_of reply = (if truthy reply then (case reply of Some c \<Rightarrow> c | None \<Rightarrow> [])
                        else js ''No response generated.'')"

text \<open>The inner \<^verbatim>\<open>try\<close> block of the handler of \<^verbatim>\<open>rag-query.ts\<close>, from the query
  embedding to the response; \<open>Inl\<close> is the message of an error thrown.\<close>

definition query_core ::
  "qenv \<Rightarrow> query_event \<Rightarrow> QueryInput \<Rightarrow> qstate \<Rightarrow> (jsstring + query_response) \<times> qstate" where
  "query_core env event input s =
     (if \<not> api_key_set env
      then (Inl (js ''OPENAI_API_KEY environment variable is required''), s)
      else
        (let s1 = s\<lparr>calls := calls s @ [CallEmbedding (prompt input)]\<rparr> in
         case embed_query env (prompt input) of
           Inl m \<Rightarrow> (Inl m, s1)
         | Inr queryEmbedding \<Rightarrow>
             (let s2 = s1\<lparr>calls := calls s1 @ [CallSearch]\<rparr> in
              case run_search env s2 queryEmbedding (q_doc_id input) (top_k input) of
                Inl m \<Rightarrow> (Inl m, s2)
              | Inr chunks \<Rightarrow>
                  if chunks = []
                  then (Inr (JsonAnswer (Some (request_id env)) [] no_results_answer
                               (Some (latency_ms env))),
                        logRetrieval env input [] s2)
                  else
                    (let context = packContextWithCitations chunks;
                         s3 = logRetrieval env input (map cr_id chunks) s2
                     in if acceptsSSE event
                        then (Inr (EventStream
                                     (streamChatCompletion env context (prompt input) chunks
                                        (request_id env) (latency_ms env))),
                              s3\<lparr>calls := calls s3 @ [CallStream]\<rparr>)
                        else
                          (case chat_completion env context (prompt input) of
                             Inl m \<Rightarrow> (Inl m, s3\<lparr>calls := calls s3 @ [CallCompletion]\<rparr>)
                           | Inr reply \<Rightarrow>
                               (Inr (JsonAnswer (Some (request_id env))
                                       (map display_chunk chunks) (answer_of reply)
                                       (Some (latency_ms env))),
                                s3\<lparr>calls := calls s3 @ [CallCompletion]\<rparr>))))))"

text \<open>
  The handler of \<^verbatim>\<open>rag-query.ts\<close>: method, rate limit, validation, connection, the
  inner block with \<^verbatim>\<open>client.end()\<close> in its \<^verbatim>\<open>finally\<close> clause, and the \<^verbatim>\<open>catch\<close> block.
\<close>

definition query_handler ::
  "qenv \<Rightarrow> query_event \<Rightarrow> request_body \<Rightarrow> qstate \<Rightarrow> query_response \<times> qstate" where
  "query_handler env event body s =
     (if httpMethod event \<noteq> js ''POST'' then (ErrorResponse 405 METHOD_NOT_ALLOWED, s)
      else
        (case checkRateLimit (now event) (getClientIP event) (rateLimitMap s) of
           (allowed, m) \<Rightarrow>
             (let s1 = s\<lparr>rateLimitMap := m\<rparr> in
              if \<not> allowed then (ErrorResponse 429 RATE_LIMITED, s1)
              else
                (case validateRequestBody body of
                   Inl code \<Rightarrow> (ErrorResponse 400 code, s1)
                 | Inr input \<Rightarrow>
                     (case q_fails env QConnect of
                        Some m \<Rightarrow> (classify_error m, s1)
                      | None \<Rightarrow>
                          (case query_core env event input s1 of
                             (r, s2) \<Rightarrow>
                               (case q_fails env QEnd of
                                  Some m \<Rightarrow> (classify_error m, s2)
                                | None \<Rightarrow>
                                    (case r of
                                       Inl m \<Rightarrow> (classify_error m, s2)
                                     | Inr response \<Rightarrow> (response, s2)))))))))"

text \<open>
  The request body of \<^verbatim>\<open>api/rag-query.ts\<close>, which is cast to its interface without a
  check: \<^verbatim>\<open>{ prompt: string; doc_id?: string; top_k?: number }\<close>.
\<close>

record QueryInput_api =
  prompt_api :: "jsstring option"
  doc_id_api :: "jsstring option"
  top_k_api :: "rat option"

datatype request_body_api = BadJson_api | Parsed_api QueryInput_api

definition query_core_api ::
  "qenv \<Rightarrow> query_event \<Rightarrow> jsstring \<Rightarrow> jsstring option \<Rightarrow> rat \<Rightarrow> qstate
     \<Rightarrow> (jsstring + query_response) \<times> qstate" where
  "query_core_api env event p docId topK s =
     (let s1 = s\<lparr>calls := calls s @ [CallEmbedding p]\<rparr> in
      case embed_query env p of
        Inl m \<Rightarrow> (Inl m, s1)
      | Inr queryEmbedding \<Rightarrow>
          (let s2 = s1\<lparr>calls := calls s1 @ [CallSearch]\<rparr> in
           case run_search env s2 queryEmbedding docId topK of
             Inl m \<Rightarrow> (Inl m, s2)
           | Inr chunks \<Rightarrow>
               if chunks = [] then (Inr (JsonAnswer None [] no_results_answer None), s2)
               else
                 (let context = packContextWithCitations chunks
                  in if acceptsSSE event
                     then (Inr (EventStream (streamChatCompletion_api env context p chunks)),
                           s2\<lparr>calls := calls s2 @ [CallStream]\<rparr>)
                     else
                       (case chat_completion env context p of
                          Inl m \<Rightarrow> (Inl m, s2\<lparr>calls := calls s2 @ [CallCompletion]\<rparr>)
                        | Inr reply \<Rightarrow>
                            (Inr (JsonAnswer None (map display_chunk chunks)
                                    (answer_of reply) None),
                             s2\<lparr>calls := calls s2 @ [CallCompletion]\<rparr>)))))"

text \<open>The handler of \<^verbatim>\<open>api/rag-query.ts\<close>: \<^verbatim>\<open>top_k = 5\<close> when it is absent, and
  \<^verbatim>\<open>Missing prompt\<close> when the prompt is absent or blank; there is no other check.\<close>

definition query_handler_api ::
  "qenv \<Rightarrow> query_event \<Rightarrow> request_body_api \<Rightarrow> qstate \<Rightarrow> query_response \<times> qstate" where
  "query_handler_api env event body s =
     (if httpMethod event \<noteq> js ''POST'' then (PlainError 405 (js ''Method not allowed''), s)
      else
        (case body of
           BadJson_api \<Rightarrow> (PlainError 500 (js ''RAG query failed''), s)
         | Parsed_api input \<Rightarrow>
             (let topK = (case top_k_api input of None \<Rightarrow> 5 | Some k \<Rightarrow> k) in
              case prompt_api input of
                None \<Rightarrow> (PlainError 400 (js ''Missing prompt''), s)
              | Some p \<Rightarrow>
                  if js_trim p = [] then (PlainError 400 (js ''Missing prompt''), s)
                  else
                    (case q_fails env QConnect of
                       Some m \<Rightarrow> (PlainError 500 (js ''RAG query failed''), s)
                     | None \<Rightarrow>
                         (case query_core_api env event p (doc_id_api input) topK s of
                            (r, s2) \<Rightarrow>
                              (case q_fails env QEnd of
                                 Some m \<Rightarrow> (PlainError 500 (js ''RAG query failed''), s2)
                               | None \<Rightarrow>
                                   (case r of
                                      Inl m \<Rightarrow> (PlainError 500 (js ''RAG query failed''), s2)
                                    | Inr response \<Rightarrow> (response, s2))))))))"

section \<open>Example data\<close>

text \<open>An embedding API that fails twice and then answers, and one that always fails.\<close>

definition api_fails_twice :: "nat \<Rightarrow> error + embedding" where
  "api_fails_twice attempt = (if attempt < 3 then Inl (ApiError attempt) else Inr [1 / 2, 0])"

definition api_always_fails :: "nat \<Rightarrow> error + embedding" where
  "api_always_fails attempt = Inl (ApiError attempt)"

text \<open>
  An environment in which nothing fails for a reason of its own: the digest is a
  stand-in that is one-to-one, the embedding API answers at once, and the blob store
  holds one text file that is white space only.
\<close>

definition demo_env :: env where
  "demo_env =
     \<lparr>sha256_hex = (\<lambda>t. js ''sha256:'' @ t),
      embed_api = (\<lambda>chunkIndex attempt. Inr [1 / 2, rat_of_nat chunkIndex]),
      db_fails = (\<lambda>op. False),
      db_now = 9,
      blob_get = (\<lambda>p. if p = js ''t1/doc_1/original.txt''
                       then Inr (Some [0x20, 0x0A, 0x20]) else Inr None),
      http_fetch = (\<lambda>u. Inr (404, [])),
      url_pathname = (\<lambda>u. None),
      pdf_parse = (\<lambda>b. Inl ExtractionFailed),
      mammoth_extract = (\<lambda>b. Inl ExtractionFailed),
      utf8_decode = (\<lambda>b. map ucast b)\<rparr>"


definition demo_doc :: doc_row where
  "demo_doc =
     \<lparr>doc_row_id = 7, title = js ''Notes'', doc_content = [], md_status = UPLOADED,
      md_doc_id = Some (js ''doc_1''), md_blob_path = Some (js ''t1/doc_1/original.txt''),
      md_original_filename = js ''notes.txt'', md_mimetype = js ''text/plain'',
      md_chunks_count = None, md_total_tokens = None\<rparr>"

definition demo_world :: world where
  "demo_world =
     \<lparr>documents = [demo_doc], embeddings = [], emb_seq = 1, api_log = [], settled = []\<rparr>"

text \<open>Two requests for the same document: by \<^verbatim>\<open>doc_id\<close>, and by \<^verbatim>\<open>blob_key\<close> alone.\<close>

definition by_doc_id :: ingest_input where
  "by_doc_id =
     \<lparr>doc_id = Some (js ''doc_1''), tenant_id = Some (js ''t1''), blob_key = None,
      blob_url = None\<rparr>"

definition by_blob_key :: ingest_input where
  "by_blob_key =
     \<lparr>doc_id = None, tenant_id = None, blob_key = Some (js ''t1/doc_1/original.txt''),
      blob_url = None\<rparr>"

text \<open>
  Data for the query engine: a second document, three stored chunks, and an environment
  in which nothing fails. Its distance is one minus the inner product, which is the
  cosine distance on the unit vectors used here.
\<close>

definition demo_doc2 :: doc_row where
  "demo_doc2 =
     \<lparr>doc_row_id = 8, title = js ''Other'', doc_content = [], md_status = READY,
      md_doc_id = Some (js ''doc_2''), md_blob_path = Some (js ''t1/doc_2/original.txt''),
      md_original_filename = js ''other.txt'', md_mimetype = js ''text/plain'',
      md_chunks_count = Some 1, md_total_tokens = Some 2\<rparr>"

definition demo_rows :: "emb_row list" where
  "demo_rows =
     [\<lparr>row_id = 1, document_id = 7, chunk_index = 0, content = js ''alpha'',
       content_hash = Some (js ''sha256:alpha''), embedding = [0, 1], token_count = 2,
       created_at = 1, updated_at = None\<rparr>,
      \<lparr>row_id = 2, document_id = 8, chunk_index = 0, content = js ''beta'',
       content_hash = Some (js ''sha256:beta''), embedding = [1, 0], token_count = 2,
       created_at = 1, updated_at = None\<rparr>,
      \<lparr>row_id = 3, document_id = 7, chunk_index = 1, content = js ''gamma'',
       content_hash = Some (js ''sha256:gamma''), embedding = [3 / 5, 4 / 5],
       token_count = 2, created_at = 1, updated_at = None\<rparr>]"

text \<open>The state of an ingestion that finds these chunks stored.\<close>

definition demo_world_stored :: world where
  "demo_world_stored = demo_world\<lparr>embeddings := demo_rows, emb_seq := 4\<rparr>"

definition demo_distance :: "embedding \<Rightarrow> embedding \<Rightarrow> rat" where
  "demo_distance a b = 1 - sum_list (map2 (*) a b)"

definition demo_qenv :: qenv where
  "demo_qenv =
     \<lparr>api_key_set = True,
      embed_query = (\<lambda>p. Inr [1, 0]),
      distance = demo_distance,
      q_fails = (\<lambda>op. None),
      chat_completion = (\<lambda>c p. Inr (Some (js ''See [1].''))),
      chat_stream = (\<lambda>c p. Inr ([Some (js ''See''), None, Some [], Some (js '' [1].'')], None)),
      request_id = js ''req-1'',
      latency_ms = 12\<rparr>"

text \<open>The same environment, except that the streamed completion breaks off after its
  first part.\<close>

definition demo_qenv_broken :: qenv where
  "demo_qenv_broken =
     demo_qenv\<lparr>chat_stream := (\<lambda>c p. Inr ([Some (js ''See'')], Some (js ''socket hang up'')))\<rparr>"

definition demo_qstate :: qstate where
  "demo_qstate =
     \<lparr>q_documents = [demo_doc, demo_doc2], q_embeddings = demo_rows, retrieval_logs = [],
      rateLimitMap = [], calls = []\<rparr>"

definition demo_post :: query_event where
  "demo_post = \<lparr>httpMethod = js ''POST'', headers = [], now = 1000\<rparr>"

section \<open>Properties of the text functions\<close>

lemma split_ws_not_Nil: "split_ws s \<noteq> []"
  by (induction s rule: split_ws.induct) (auto split: list.splits)

subsection \<open>The chunking loop\<close>

text \<open>
  Whenever the loop is entered with a positive overlap it is entered again: the new
  start is \<open>end - overlapWords\<close> with \<open>end\<close> at most the number of words, so it stays
  below the number of words, the \<^verbatim>\<open>break\<close> is not taken and the loop condition holds.
  The proof is by induction over the approximations of the loop.
\<close>

lemma chunk_loop_diverges:
  assumes "chunk_loop words mw ow start chunks = Some r"
  shows "\<not> (0 < ow \<and> start < int (length words))"
proof (rule chunk_loop.raw_induct
    [where P = "\<lambda>words mw ow start chunks r. \<not> (0 < ow \<and> start < int (length words))",
      OF _ assms], goal_cases)
  case (1 f words mw ow start chunks r)
  show ?case
  proof
    assume h: "0 < ow \<and> start < int (length words)"
    let ?e = "min (start + mw) (int (length words))"
    have lt: "?e - ow < int (length words)"
      using h by linarith
    from 1(2) h lt obtain c' where "f words mw ow (?e - ow) c' = Some r"
      by (auto simp: Let_def split: if_splits)
    from 1(1)[OF this] h lt show False
      by simp
  qed
qed

lemma chunkText_words_diverges: "0 < ow \<Longrightarrow> chunkText_words mw ow t = None"
  using chunk_loop_diverges[of "split_ws t" mw ow 0 "[]"] split_ws_not_Nil[of t]
  by (cases "chunkText_words mw ow t") (auto simp: chunkText_words_def)

text \<open>
  C1. The claim is that \<^verbatim>\<open>chunkText\<close> returns a finite list of chunks for every text.
  With the default budgets the overlap is 92 words, and the call returns for no text at
  all: the window never moves past the end of the words.
\<close>

theorem chunkText_never_returns: "chunkText t = None"
  unfolding chunkText_def by (rule chunkText_words_diverges) simp

subsection \<open>The cleaned text\<close>

lemma is_space_LF: "is_space 0x0A"
  by (simp add: is_space_def)

lemma collapse_ws_no_LF: "0x0A \<notin> set (collapse_ws s)"
  by (induction s rule: collapse_ws.induct) (auto simp: is_space_LF)

lemma collapse_ws_head:
  "s = [] \<or> \<not> is_space (hd s) \<Longrightarrow> collapse_ws s = [] \<or> \<not> is_space (hd (collapse_ws s))"
  by (cases s) auto

lemma dropWhile_head: "dropWhile P s = [] \<or> \<not> P (hd (dropWhile P s))"
  by (metis hd_dropWhile)

lemma adjacent_Cons:
  "has_adjacent_spaces (c # s) \<longleftrightarrow>
     (s \<noteq> [] \<and> is_space c \<and> is_space (hd s)) \<or> has_adjacent_spaces s"
  by (cases s) auto

lemma collapse_ws_not_adjacent: "\<not> has_adjacent_spaces (collapse_ws s)"
proof (induction s rule: collapse_ws.induct)
  case 1
  show ?case by simp
next
  case (2 c cs)
  show ?case
  proof (cases "is_space c")
    case True
    have "collapse_ws (dropWhile is_space cs) = []
        \<or> \<not> is_space (hd (collapse_ws (dropWhile is_space cs)))"
      by (rule collapse_ws_head) (rule dropWhile_head)
    with True 2(1) show ?thesis
      by (auto simp: adjacent_Cons)
  next
    case False
    with 2(2) show ?thesis
      by (auto simp: adjacent_Cons)
  qed
qed

lemma match_blank_lines_None: "0x0A \<notin> set s \<Longrightarrow> match_blank_lines ls s = None"
  by (cases s) (auto simp: match_blank_lines_def)

lemma replace_all_no_LF:
  "0x0A \<notin> set s \<Longrightarrow> replace_all match_blank_lines rep ls 0 s = s"
proof (induction s arbitrary: ls)
  case Nil
  show ?case by simp
next
  case (Cons c cs)
  have "match_blank_lines ls (c # cs) = None"
    using Cons.prems by (rule match_blank_lines_None)
  with Cons show ?case by simp
qed

lemma adjacent_append_left: "has_adjacent_spaces xs \<Longrightarrow> has_adjacent_spaces (xs @ ys)"
  by (induction xs rule: has_adjacent_spaces.induct) auto

lemma adjacent_append_right: "has_adjacent_spaces ys \<Longrightarrow> has_adjacent_spaces (xs @ ys)"
  by (induction xs) (auto simp: adjacent_Cons)

lemma adjacent_dropWhile: "has_adjacent_spaces (dropWhile P s) \<Longrightarrow> has_adjacent_spaces s"
  using adjacent_append_right[of "dropWhile P s" "takeWhile P s"] by simp

lemma adjacent_drop_end:
  assumes "has_adjacent_spaces (rev (dropWhile P (rev s)))"
  shows "has_adjacent_spaces s"
proof -
  have "s = rev (dropWhile P (rev s)) @ rev (takeWhile P (rev s))"
    by (metis rev_append rev_rev_ident takeWhile_dropWhile_id)
  with adjacent_append_left[OF assms, of "rev (takeWhile P (rev s))"] show ?thesis
    by simp
qed

lemma adjacent_trim: "has_adjacent_spaces (js_trim s) \<Longrightarrow> has_adjacent_spaces s"
  unfolding js_trim_def by (blast dest: adjacent_drop_end adjacent_dropWhile)

lemma set_trim: "set (js_trim s) \<subseteq> set s"
  unfolding js_trim_def by (auto dest!: set_dropWhileD)

text \<open>
  C10. For every input text, the output of \<^verbatim>\<open>cleanText\<close> contains no line feed and no
  two neighbouring white-space code units; the step that collapses blank lines runs on
  text whose white space is already single spaces, so it matches nothing and returns
  its input, whatever text \<open>s\<close> the white-space step was given.
\<close>

theorem cleanText_whitespace:
  "0x0A \<notin> set (cleanText t) \<and> \<not> has_adjacent_spaces (cleanText t)
   \<and> collapse_blank_lines (collapse_ws s) = collapse_ws s"
proof -
  let ?v = "replace_all match_heading [] True 0 (replace_all match_page [] True 0 t)"
  have same: "\<And>x. collapse_blank_lines (collapse_ws x) = collapse_ws x"
    unfolding collapse_blank_lines_def by (rule replace_all_no_LF) (rule collapse_ws_no_LF)
  have ct: "cleanText t = js_trim (collapse_ws ?v)"
    by (simp add: cleanText_def same)
  have "0x0A \<notin> set (js_trim (collapse_ws ?v))"
    using set_trim[of "collapse_ws ?v"] collapse_ws_no_LF[of ?v] by blast
  moreover have "\<not> has_adjacent_spaces (js_trim (collapse_ws ?v))"
    using adjacent_trim collapse_ws_not_adjacent by blast
  ultimately show ?thesis
    using ct same by simp
qed

theorem cleanText_whitespace_witness:
  "cleanText (js ''Page 3 a  b'') = js ''a b''
   \<and> 0x0A \<notin> set (cleanText (js ''Page 3 a  b''))
   \<and> \<not> has_adjacent_spaces (cleanText (js ''Page 3 a  b''))"
proof -
  have "cleanText (js ''Page 3 a  b'') = js ''a b''"
    by code_simp
  then show ?thesis
    using cleanText_whitespace[of "js ''Page 3 a  b''" "[]"] by simp
qed

section \<open>Properties of the embedding call\<close>

lemma retry_from_last:
  "retry_from api 3 3 s =
     (case api 3 of
        Inr v \<Rightarrow> \<lparr>outcome = Inr v, attempts = 3, backoffs = s\<rparr>
      | Inl e \<Rightarrow> \<lparr>outcome = Inl e, attempts = 3, backoffs = s\<rparr>)"
  by (subst retry_from.simps) (simp split: sum.splits)

lemma retry_from_second:
  "retry_from api 3 2 s =
     (case api 2 of
        Inr v \<Rightarrow> \<lparr>outcome = Inr v, attempts = 2, backoffs = s\<rparr>
      | Inl e \<Rightarrow> retry_from api 3 3 (s @ [2000]))"
  by (subst retry_from.simps) (simp split: sum.splits)

lemma retry_from_first:
  "retry_from api 3 1 s =
     (case api 1 of
        Inr v \<Rightarrow> \<lparr>outcome = Inr v, attempts = 1, backoffs = s\<rparr>
      | Inl e \<Rightarrow> retry_from api 3 2 (s @ [1000]))"
  by (subst retry_from.simps) (simp add: numeral_2_eq_2 split: sum.splits)

text \<open>The call with the default of three attempts, written out.\<close>

lemma getEmbeddingWithRetry_three:
  "getEmbeddingWithRetry api 3 =
     (case api 1 of
        Inr v \<Rightarrow> \<lparr>outcome = Inr v, attempts = 1, backoffs = []\<rparr>
      | Inl e1 \<Rightarrow>
          (case api 2 of
             Inr v \<Rightarrow> \<lparr>outcome = Inr v, attempts = 2, backoffs = [1000]\<rparr>
           | Inl e2 \<Rightarrow> \<lparr>outcome = api 3, attempts = 3, backoffs = [1000, 2000]\<rparr>))"
  unfolding getEmbeddingWithRetry_def
  by (simp only: retry_from_first retry_from_second retry_from_last append_Nil append_Cons)
     (simp split: sum.splits)

lemma upt_attempts: "[Suc 0..<3] = [Suc 0, 2]" "[Suc 0..<2] = [Suc 0]"
  by (simp_all add: upt_rec)

text \<open>For any bound, the number of calls stays within the bound.\<close>

lemma retry_from_attempts:
  "attempt \<le> Suc maxRetries \<Longrightarrow> attempts (retry_from api maxRetries attempt s) \<le> maxRetries"
  by (induction api maxRetries attempt s rule: retry_from.induct)
     (subst retry_from.simps, auto split: sum.splits)

text \<open>
  C3. \<^verbatim>\<open>getEmbeddingWithRetry\<close> with its default bound, in full: the first attempt
  that succeeds ends the call with its embedding, a failed first attempt is followed by
  a pause of 1 s and a failed second attempt by a pause of 2 s, and the third attempt
  ends the call with its embedding or with the error it throws, without a pause. So the
  call makes at most 3 calls of the embedding API; the pauses it takes are those after
  the attempts before the last one it makes, the pause after attempt \<open>n\<close> being
  \<open>2 ^ (n - 1)\<close> seconds; a call that fails twice and succeeds at the third attempt
  returns the embedding; and a call whose three attempts fail throws the error of the
  third attempt, after pauses of 1 s and 2 s.
\<close>

theorem getEmbeddingWithRetry_default:
  "getEmbeddingWithRetry api 3 =
     (case api 1 of
        Inr v \<Rightarrow> \<lparr>outcome = Inr v, attempts = 1, backoffs = []\<rparr>
      | Inl e1 \<Rightarrow>
          (case api 2 of
             Inr v \<Rightarrow> \<lparr>outcome = Inr v, attempts = 2, backoffs = [1000]\<rparr>
           | Inl e2 \<Rightarrow> \<lparr>outcome = api 3, attempts = 3, backoffs = [1000, 2000]\<rparr>))
   \<and> attempts (getEmbeddingWithRetry api 3) \<le> 3
   \<and> backoffs (getEmbeddingWithRetry api 3) =
       map (\<lambda>attempt. 2 ^ (attempt - 1) * 1000) [1..<attempts (getEmbeddingWithRetry api 3)]
   \<and> (api 1 = Inl e1 \<and> api 2 = Inl e2 \<and> api 3 = Inr v \<longrightarrow>
        outcome (getEmbeddingWithRetry api 3) = Inr v
        \<and> attempts (getEmbeddingWithRetry api 3) = 3)
   \<and> (api 1 = Inl e1 \<and> api 2 = Inl e2 \<and> api 3 = Inl e3 \<longrightarrow>
        outcome (getEmbeddingWithRetry api 3) = Inl e3
        \<and> attempts (getEmbeddingWithRetry api 3) = 3
        \<and> backoffs (getEmbeddingWithRetry api 3) = [1000, 2000]
        \<and> 1000 + 2000 \<le> sum_list (backoffs (getEmbeddingWithRetry api 3)))"
proof -
  have "attempts (getEmbeddingWithRetry api 3) \<le> 3
   \<and> backoffs (getEmbeddingWithRetry api 3) =
       map (\<lambda>attempt. 2 ^ (attempt - 1) * 1000) [1..<attempts (getEmbeddingWithRetry api 3)]
   \<and> (api 1 = Inl e1 \<and> api 2 = Inl e2 \<and> api 3 = Inr v \<longrightarrow>
        outcome (getEmbeddingWithRetry api 3) = Inr v
        \<and> attempts (getEmbeddingWithRetry api 3) = 3)
   \<and> (api 1 = Inl e1 \<and> api 2 = Inl e2 \<and> api 3 = Inl e3 \<longrightarrow>
        outcome (getEmbeddingWithRetry api 3) = Inl e3
        \<and> attempts (getEmbeddingWithRetry api 3) = 3
        \<and> backoffs (getEmbeddingWithRetry api 3) = [1000, 2000]
        \<and> 1000 + 2000 \<le> sum_list (backoffs (getEmbeddingWithRetry api 3)))"
    by (simp add: getEmbeddingWithRetry_three upt_attempts split: sum.splits)
  with getEmbeddingWithRetry_three[of api] show ?thesis
    by (rule conjI)
qed

theorem getEmbeddingWithRetry_default_witness:
  "getEmbeddingWithRetry api_fails_twice 3 =
     \<lparr>outcome = Inr [1 / 2, 0], attempts = 3, backoffs = [1000, 2000]\<rparr>
   \<and> getEmbeddingWithRetry api_always_fails 3 =
     \<lparr>outcome = Inl (ApiError 3), attempts = 3, backoffs = [1000, 2000]\<rparr>
   \<and> outcome (getEmbeddingWithRetry api_fails_twice 3) = Inr [1 / 2, 0]
   \<and> attempts (getEmbeddingWithRetry api_fails_twice 3) = 3
   \<and> outcome (getEmbeddingWithRetry api_always_fails 3) = Inl (ApiError 3)
   \<and> backoffs (getEmbeddingWithRetry api_always_fails 3) = [1000, 2000]"
  using getEmbeddingWithRetry_default
          [of api_fails_twice "ApiError 1" "ApiError 2" "[1 / 2, 0]" "ApiError 3"]
        getEmbeddingWithRetry_default
          [of api_always_fails "ApiError 1" "ApiError 2" "[]" "ApiError 3"]
  by (simp add: api_fails_twice_def api_always_fails_def upt_attempts)

section \<open>Properties of the statements\<close>

text \<open>The lookup of the cache and the updates of a document name columns that their
  tables have.\<close>

lemma lookup_statement_ok:
  "statement_ok [js ''embedding'', js ''content_hash''] embeddings_columns"
  by (simp add: statement_ok_def embeddings_columns_def js_def)


text \<open>The upsert names the column \<^verbatim>\<open>updated_at\<close>, which \<^verbatim>\<open>rag.embeddings\<close> does not
  have, and the lookups of the document name the columns \<^verbatim>\<open>doc_id\<close> and \<^verbatim>\<open>blob_path\<close>,
  which \<^verbatim>\<open>rag.documents\<close> does not have.\<close>

lemma upsert_statement_refused:
  "\<not> statement_ok (upsert_insert_columns @ upsert_set_columns) embeddings_columns"
  by (simp add: statement_ok_def upsert_insert_columns_def upsert_set_columns_def
      embeddings_columns_def js_def)

lemma select_statements_refused:
  "\<not> statement_ok [js ''id'', js ''title'', js ''metadata'', js ''doc_id'']
       documents_columns"
  "\<not> statement_ok [js ''id'', js ''title'', js ''metadata'', js ''blob_path'']
       documents_columns"
  by (simp_all add: statement_ok_def documents_columns_def js_def)

lemma upsert_chunk_refused: "upsert_chunk env d i c h e t w = Inl DbError"
  by (simp add: upsert_chunk_def statement_fails_def upsert_statement_refused)

lemma lookup_cached_value:
  "lookup_cached env table ci c =
     (if db_fails env (OpSelectCached ci) then Inl DbError
      else Inr (map_option embedding
                  (find (\<lambda>r. content_hash r = Some (generateContentHash env c)) table)))"
  by (simp add: lookup_cached_def statement_fails_def lookup_statement_ok)

section \<open>Properties of the batch processing\<close>

lemma find_stored:
  "find (\<lambda>r. content_hash r = Some (generateContentHash env c)) table = None
     \<longleftrightarrow> \<not> stored env c table"
  by (auto simp: stored_def list_ex_iff find_None_iff)

text \<open>
  The callback of a chunk, whatever happened to the other chunks: it makes the embedding
  calls of its own chunk, writes nothing to the table, and resolves to
  \<^verbatim>\<open>success: false\<close>.
\<close>

lemma settle_chunk_value:
  "settle_chunk env d ci ch (lookup_cached env T ci ch) w =
     w\<lparr>api_log := api_log w @ embedding_calls env T ci ch,
       settled := settled w @ [(ci, False)]\<rparr>"
proof (cases "db_fails env (OpSelectCached ci)")
  case True
  then show ?thesis
    by (simp add: settle_chunk_def lookup_cached_value embedding_calls_def)
next
  case False
  show ?thesis
  proof (cases "stored env ch T")
    case True
    then obtain r where "find (\<lambda>r. content_hash r = Some (generateContentHash env ch)) T = Some r"
      using find_stored[of env ch T] by auto
    with True False show ?thesis
      by (simp add: settle_chunk_def lookup_cached_value embedding_calls_def)
  next
    case stored: False
    then have "find (\<lambda>r. content_hash r = Some (generateContentHash env ch)) T = None"
      by (simp add: find_stored)
    with stored False show ?thesis
      by (simp add: settle_chunk_def lookup_cached_value embedding_calls_def Let_def
          upsert_chunk_refused split: sum.splits)
  qed
qed

lemma fold_settle_value:
  "fold (\<lambda>(ci, ch). settle_chunk env d ci ch (lookup_cached env T ci ch)) items w =
     w\<lparr>api_log := api_log w @ concat (map (\<lambda>(ci, ch). embedding_calls env T ci ch) items),
       settled := settled w @ map (\<lambda>(ci, ch). (ci, False)) items\<rparr>"
proof (induction items arbitrary: w)
  case Nil
  show ?case by simp
next
  case (Cons x xs)
  obtain ci ch where x: "x = (ci, ch)" by (cases x)
  show ?case
    by (simp add: x Cons) (simp add: settle_chunk_value)
qed

lemma map_enumerate:
  "map f (enumerate i xs) = map (\<lambda>j. f (j, xs ! (j - i))) [i..<i + length xs]"
  by (rule nth_equalityI) (simp_all add: nth_enumerate_eq)

lemma process_batch_value:
  "process_batch env d i batch w =
     w\<lparr>api_log := api_log w @
          concat (map (\<lambda>j. embedding_calls env (embeddings w) j (batch ! (j - i)))
                    [i..<i + length batch]),
       settled := settled w @ map (\<lambda>j. (j, False)) [i..<i + length batch]\<rparr>"
  by (simp add: process_batch_def fold_settle_value map_enumerate)

lemma upt_batches: "i < n \<Longrightarrow> [i..<i + min (n - i) 10] @ [i + 10..<n] = [i..<n]"
proof (cases "i + 10 \<le> n")
  case True
  then obtain k where n: "n = (i + 10) + k"
    using le_Suc_ex by blast
  have "[i..<(i + 10) + k] = [i..<i + 10] @ [i + 10..<(i + 10) + k]"
    by (rule upt_add_eq_append) simp
  then show ?thesis
    by (simp add: n)
next
  case False
  assume "i < n"
  with False have "min (n - i) 10 = n - i" "[i + 10..<n] = []"
    by simp_all
  with \<open>i < n\<close> show ?thesis
    by simp
qed

text \<open>
  All the batches: every chunk from \<open>i\<close> on is looked up and, on a miss, embedded, in
  order, whatever the chunks before it did; every callback resolves to
  \<^verbatim>\<open>success: false\<close>; and nothing else changes, the table included.
\<close>

lemma batches_from_value:
  "batches_from env d chunks i w =
     w\<lparr>api_log := api_log w @
          concat (map (\<lambda>j. embedding_calls env (embeddings w) j (chunks ! j))
                    [i..<length chunks]),
       settled := settled w @ map (\<lambda>j. (j, False)) [i..<length chunks]\<rparr>"
proof (induction env d chunks i w rule: batches_from.induct)
  case (1 env d chunks i w)
  show ?case
  proof (cases "i < length chunks")
    case False
    then show ?thesis
      by (subst batches_from.simps) simp
  next
    case True
    let ?batch = "take 10 (drop i chunks)"
    let ?w1 = "process_batch env d i ?batch w"
    have step: "batches_from env d chunks i w = batches_from env d chunks (i + 10) ?w1"
      using True by (subst batches_from.simps) simp
    have len: "length ?batch = min (length chunks - i) 10"
      by simp
    have same: "map (\<lambda>j. embedding_calls env (embeddings w) j (?batch ! (j - i)))
                  [i..<i + min (length chunks - i) 10]
              = map (\<lambda>j. embedding_calls env (embeddings w) j (chunks ! j))
                  [i..<i + min (length chunks - i) 10]"
      by (rule map_cong) auto
    have w1: "?w1 =
        w\<lparr>api_log := api_log w @
             concat (map (\<lambda>j. embedding_calls env (embeddings w) j (chunks ! j))
                       [i..<i + min (length chunks - i) 10]),
          settled := settled w @ map (\<lambda>j. (j, False)) [i..<i + min (length chunks - i) 10]\<rparr>"
      unfolding process_batch_value len same ..
    have split: "map g [i..<length chunks] =
        map g [i..<i + min (length chunks - i) 10] @ map g [i + 10..<length chunks]" for g :: "nat \<Rightarrow> 'b"
      using upt_batches[OF True] by (metis map_append)
    show ?thesis
      unfolding step 1[OF True]
      by (simp add: w1 split[of "\<lambda>j. embedding_calls env (embeddings w) j (chunks ! j)"]
          split[of "\<lambda>j. (j, False)"])
  qed
qed

lemma processEmbeddingsBatch_value:
  "processEmbeddingsBatch env chunks d w =
     w\<lparr>api_log := api_log w @
          concat (map (\<lambda>j. embedding_calls env (embeddings w) j (chunks ! j))
                    [0..<length chunks]),
       settled := settled w @ map (\<lambda>j. (j, False)) [0..<length chunks]\<rparr>"
  by (simp add: processEmbeddingsBatch_def batches_from_value)



text \<open>
  C5. The claim is that the upsert, on a conflict, reassigns \<^verbatim>\<open>document_id\<close> and
  \<^verbatim>\<open>chunk_index\<close> of the row under the content hash and writes nothing else. The
  statement assigns a third column, \<^verbatim>\<open>updated_at\<close>, which the table does not have: the
  database refuses it on every call, for any chunk and any state, so the batch
  processing leaves the table as it finds it, whatever the chunks are. With the chunk
  \<open>alpha\<close> stored for document 7, processing the same content as chunk 0 of document 8
  leaves all three rows with their documents (7, 8 and 7) and their chunk indices, and
  the chunk is reported as failed.
\<close>

theorem upsert_is_refused_on_every_call:
  "upsert_chunk env d i c h e t w = Inl DbError
   \<and> embeddings (processEmbeddingsBatch env chunks d w) = embeddings w
   \<and> upsert_chunk demo_env 8 0 (js ''alpha'') (js ''sha256:alpha'') [1 / 2, 0] 2
       demo_world_stored = Inl DbError
   \<and> map document_id
       (embeddings (processEmbeddingsBatch demo_env [js ''alpha''] 8 demo_world_stored))
     = [7, 8, 7]
   \<and> map chunk_index
       (embeddings (processEmbeddingsBatch demo_env [js ''alpha''] 8 demo_world_stored))
     = [0, 0, 1]
   \<and> settled (processEmbeddingsBatch demo_env [js ''alpha''] 8 demo_world_stored)
     = [(0, False)]"
  by (simp add: upsert_chunk_refused processEmbeddingsBatch_value demo_world_stored_def
      demo_world_def demo_rows_def)

section \<open>Properties of the embedding cache\<close>








section \<open>Properties of the ingestion handler\<close>



text \<open>The lookup of the document is refused, whatever the request names it by.\<close>

lemma select_document_refused:
  "select_document env (js ''doc_id'') P w = Inl DbError"
  "select_document env (js ''blob_path'') P w = Inl DbError"
  by (simp_all add: select_document_def statement_fails_def select_statements_refused)

lemma resolve_document_fails:
  assumes "truthy (doc_id input) \<or> truthy (blob_key input) \<or> truthy (blob_url input)"
  shows "resolve_document env input w = Inl DbError
       \<or> resolve_document env input w = Inl UnableToDeriveKey"
  using assms
  by (auto simp: resolve_document_def select_document_refused truthy_def Let_def
      split: option.splits)

lemma handler_try_fails:
  "handler_try env body w = Some (Inl InvalidJson, w)
   \<or> handler_try env body w = Some (Inl MissingIdentifier, w)
   \<or> handler_try env body w = Some (Inl UnableToDeriveKey, w)
   \<or> handler_try env body w = Some (Inl DbError, w)"
proof (cases body)
  case None
  then show ?thesis
    by (simp add: handler_try_def)
next
  case (Some input)
  show ?thesis
  proof (cases "truthy (doc_id input) \<or> truthy (blob_key input) \<or> truthy (blob_url input)")
    case False
    with Some show ?thesis
      by (simp add: handler_try_def)
  next
    case True
    from resolve_document_fails[OF True, of env w]
    have "handler_core env input w = Some (Inl DbError, w)
        \<or> handler_core env input w = Some (Inl UnableToDeriveKey, w)"
      by (auto simp: handler_core_def)
    with Some True show ?thesis
      by (auto simp: handler_try_def)
  qed
qed

text \<open>
  Every run of the handler ends with the failure response: the body is not JSON, it
  names no document, no key can be derived from its URL, or the database throws. No run
  reaches the text of the document, and no run answers with success.
\<close>

lemma handler_always_fails:
  "\<exists>e. e \<in> {InvalidJson, MissingIdentifier, UnableToDeriveKey, DbError}
     \<and> handler env body w = Some (IngestFailed e, mark_error env body w)"
proof -
  from handler_try_fails[of env body w] obtain e where
    e: "e \<in> {InvalidJson, MissingIdentifier, UnableToDeriveKey, DbError}"
    and t: "handler_try env body w = Some (Inl e, w)"
    by fastforce
  from t have "handler env body w = Some (IngestFailed e, mark_error env body w)"
    by (simp add: handler_def)
  with e show ?thesis
    by blast
qed






text \<open>
  C9. The claim is that a document whose cleaned text is empty makes the ingestion fail
  with the failure \<^verbatim>\<open>No text content extracted from document\<close>, and ends with status
  \<open>ERROR\<close>. No run of the handler gets as far as the text: the statement that looks the
  document up is refused, and every run ends with one of four other failures. For the
  document whose blob is white space only, with no statement failing for a reason of
  its own: named by \<^verbatim>\<open>blob_key\<close> alone, the run answers with the error of the database
  and the document stays \<open>UPLOADED\<close>, as the \<^verbatim>\<open>catch\<close> block marks documents by
  \<^verbatim>\<open>input.doc_id\<close> only; named by \<^verbatim>\<open>doc_id\<close>, the run answers with the error of the
  database and the document is set to \<open>ERROR\<close>.
\<close>

theorem empty_text_check_is_never_reached:
  "(\<exists>e. e \<in> {InvalidJson, MissingIdentifier, UnableToDeriveKey, DbError}
       \<and> handler env body w = Some (IngestFailed e, mark_error env body w))
   \<and> handler demo_env (Some by_blob_key) demo_world = Some (IngestFailed DbError, demo_world)
   \<and> handler demo_env (Some by_doc_id) demo_world =
       Some (IngestFailed DbError, demo_world\<lparr>documents := [demo_doc\<lparr>md_status := ERROR\<rparr>]\<rparr>)"
proof -
  have "handler demo_env (Some by_blob_key) demo_world = Some (IngestFailed DbError, demo_world)"
    by code_simp
  moreover have "handler demo_env (Some by_doc_id) demo_world =
       Some (IngestFailed DbError, demo_world\<lparr>documents := [demo_doc\<lparr>md_status := ERROR\<rparr>]\<rparr>)"
    by code_simp
  ultimately show ?thesis
    using handler_always_fails[of env body w] by simp
qed

section \<open>Properties of the query engine\<close>

subsection \<open>Vector search\<close>

lemma search_rows_member:
  assumes "(e, d) \<in> set (search_rows cosdist docs embs q docId)"
  shows "e \<in> set embs \<and> d \<in> set docs \<and> document_id e = doc_row_id d
     \<and> (truthy docId \<longrightarrow> md_doc_id d = docId)"
  using assms by (auto simp: search_rows_def Let_def split: if_splits)

lemma search_rows_sorted:
  "sorted (map (\<lambda>(e, d). cosdist (embedding e) q) (search_rows cosdist docs embs q docId))"
  by (simp add: search_rows_def Let_def)

lemma descending_similarity:
  fixes k :: "'a \<Rightarrow> rat"
  assumes "sorted (map k rows)"
  shows "sorted (rev (map (\<lambda>r. 1 - k r) rows))"
proof -
  have "sorted_wrt (\<lambda>a b. k a \<le> k b) rows"
    using assms by (simp add: sorted_map)
  then have "sorted_wrt (\<lambda>a b. 1 - k b \<le> 1 - k a) rows"
    by (rule sorted_wrt_mono_rel[rotated]) simp
  then have "sorted_wrt (\<lambda>a b. 1 - k a \<le> 1 - k b) (rev rows)"
    by (simp add: sorted_wrt_rev)
  then show ?thesis
    by (simp add: rev_map sorted_map)
qed

lemma similarity_to_result:
  "map similarity (map (to_result cosdist q) rows)
     = map (\<lambda>r. 1 - (\<lambda>(e, d). cosdist (embedding e) q) r) rows"
  by (induction rows) (auto simp: to_result_def)

text \<open>
  C7. The claim is that with a document filter \<open>doc_id = D\<close> every chunk returned
  belongs to document \<open>D\<close>. The search adds the filter under \<^verbatim>\<open>if (docId)\<close>, and the
  empty string is not truthy: with \<open>D\<close> the empty string the search runs over all
  documents and returns chunks of documents whose \<^verbatim>\<open>doc_id\<close> is not \<open>D\<close>.
\<close>

theorem empty_doc_id_is_no_filter:
  "vectorSearch demo_distance [demo_doc, demo_doc2] demo_rows [1, 0] (Some []) 1 =
     Inr [\<lparr>cr_id = 2, cr_content = js ''beta'', cr_chunk_index = 0, similarity = 1,
           document_title = js ''Other''\<rparr>]
   \<and> map (\<lambda>(e, d). md_doc_id d)
       (take 1 (search_rows demo_distance [demo_doc, demo_doc2] demo_rows [1, 0] (Some [])))
     = [Some (js ''doc_2'')]"
  by code_simp

text \<open>
  C7, as amended. Whenever the search returns, its results are made, in order, from
  rows that join a stored chunk with its document: the list has at most \<open>top_k\<close>
  elements, it is in the order of descending similarity (one minus the distance to the
  query vector), each result carries the title of the document of its chunk, and, for
  a document filter \<open>doc_id = D\<close> with \<open>D\<close> not empty, each chunk belongs to a document
  whose \<^verbatim>\<open>doc_id\<close> is \<open>D\<close>.
\<close>

theorem vectorSearch_filtered_ranked_limited:
  assumes "vectorSearch cosdist docs embs q docId topK = Inr results"
  shows "\<exists>rows. results = map (to_result cosdist q) rows
       \<and> length results \<le> nat \<lfloor>topK\<rfloor>
       \<and> sorted (rev (map similarity results))
       \<and> map similarity results = map (\<lambda>(e, d). 1 - cosdist (embedding e) q) rows
       \<and> map document_title results = map (\<lambda>(e, d). title d) rows
       \<and> (\<forall>(e, d) \<in> set rows.
             e \<in> set embs \<and> d \<in> set docs \<and> document_id e = doc_row_id d
             \<and> (\<forall>D. docId = Some D \<and> D \<noteq> [] \<longrightarrow> md_doc_id d = Some D))"
proof -
  let ?all = "search_rows cosdist docs embs q docId"
  let ?rows = "take (nat \<lfloor>topK\<rfloor>) ?all"
  let ?k = "\<lambda>(e, d). cosdist (embedding e) q"
  have res: "results = map (to_result cosdist q) ?rows"
    using assms by (auto simp: vectorSearch_def split: if_splits)
  have "sorted (map ?k ?rows)"
    using search_rows_sorted[of cosdist q docs embs docId]
    by (simp add: take_map[symmetric] sorted_wrt_take)
  then have ranked: "sorted (rev (map similarity results))"
    unfolding res similarity_to_result by (rule descending_similarity)
  have sims: "map similarity results = map (\<lambda>(e, d). 1 - cosdist (embedding e) q) ?rows"
    unfolding res by (induction ?rows) (auto simp: to_result_def)
  have titles: "map document_title results = map (\<lambda>(e, d). title d) ?rows"
    unfolding res by (induction ?rows) (auto simp: to_result_def)
  have members: "\<forall>(e, d) \<in> set ?rows.
      e \<in> set embs \<and> d \<in> set docs \<and> document_id e = doc_row_id d
      \<and> (\<forall>D. docId = Some D \<and> D \<noteq> [] \<longrightarrow> md_doc_id d = Some D)"
  proof (clarify, intro conjI allI impI)
    fix e d
    assume "(e, d) \<in> set ?rows"
    then have m: "(e, d) \<in> set ?all"
      by (rule in_set_takeD)
    note sm = search_rows_member[OF m]
    from sm show "e \<in> set embs" "d \<in> set docs" "document_id e = doc_row_id d"
      by simp_all
    fix D
    assume "docId = Some D \<and> D \<noteq> []"
    with sm show "md_doc_id d = Some D"
      by (simp add: truthy_def)
  qed
  have "length results \<le> nat \<lfloor>topK\<rfloor>"
    by (simp add: res)
  with res ranked sims titles members show ?thesis
    by blast
qed

theorem vectorSearch_filtered_ranked_limited_witness:
  "vectorSearch demo_distance [demo_doc, demo_doc2] demo_rows [1, 0] (Some (js ''doc_1'')) 5 =
     Inr [\<lparr>cr_id = 3, cr_content = js ''gamma'', cr_chunk_index = 1, similarity = 3 / 5,
           document_title = js ''Notes''\<rparr>,
          \<lparr>cr_id = 1, cr_content = js ''alpha'', cr_chunk_index = 0, similarity = 0,
           document_title = js ''Notes''\<rparr>]
   \<and> sorted (rev [3 / 5, 0 :: rat])"
proof -
  have run: "vectorSearch demo_distance [demo_doc, demo_doc2] demo_rows [1, 0]
      (Some (js ''doc_1'')) 5 =
     Inr [\<lparr>cr_id = 3, cr_content = js ''gamma'', cr_chunk_index = 1, similarity = 3 / 5,
           document_title = js ''Notes''\<rparr>,
          \<lparr>cr_id = 1, cr_content = js ''alpha'', cr_chunk_index = 0, similarity = 0,
           document_title = js ''Notes''\<rparr>]"
    by code_simp
  from vectorSearch_filtered_ranked_limited[OF run] run show ?thesis
    by auto
qed

subsection \<open>Streamed answers\<close>

lemma token_events_not_terminal: "filter is_terminal (token_events parts) = []"
  by (induction parts rule: token_events.induct) auto

text \<open>
  C8. The claim is that on success the stream is a metadata event, a chunks event and
  token events, ended by one end event. The stream of \<^verbatim>\<open>api/rag-query.ts\<close> has no
  metadata event: it starts with the chunks event.
\<close>

theorem stream_api_has_no_metadata:
  "streamChatCompletion_api demo_qenv (js ''context'') (js ''question'') [] =
     [EvChunks [], EvToken (js ''See''), EvToken (js '' [1].''), EvEnd]"
  by code_simp

text \<open>
  C8, as amended. Every stream that either \<^verbatim>\<open>streamChatCompletion\<close> returns has exactly
  one terminal event, and that event is its last. When the completion is streamed to
  its end, the stream is the metadata event (in \<^verbatim>\<open>rag-query.ts\<close> only), the chunks
  event, one token event for each part with content, and the end event. When the client
  cannot be made, the request fails or the iteration breaks off, the stream is one error
  event and nothing else.
\<close>

theorem stream_has_one_terminal_event:
  assumes "stream = streamChatCompletion env ctx question chunks requestId latencyMs"
    and "stream_api = streamChatCompletion_api env ctx question chunks"
  shows "stream \<noteq> [] \<and> is_terminal (last stream) \<and> length (filter is_terminal stream) = 1
     \<and> (api_key_set env \<and> chat_stream env ctx question = Inr (parts, None) \<longrightarrow>
          stream = [EvMetadata requestId latencyMs, EvChunks (map display_chunk chunks)]
                     @ token_events parts @ [EvEnd])
     \<and> (\<not> api_key_set env \<or> (\<forall>ps. chat_stream env ctx question \<noteq> Inr (ps, None)) \<longrightarrow>
          (\<exists>m. stream = [EvError m]))
     \<and> stream_api \<noteq> [] \<and> is_terminal (last stream_api)
     \<and> length (filter is_terminal stream_api) = 1
     \<and> (chat_stream env ctx question = Inr (parts, None) \<longrightarrow>
          stream_api = [EvChunks (map display_chunk chunks)] @ token_events parts @ [EvEnd])
     \<and> ((\<forall>ps. chat_stream env ctx question \<noteq> Inr (ps, None)) \<longrightarrow>
          (\<exists>m. stream_api = [EvError m]))"
  unfolding assms streamChatCompletion_def streamChatCompletion_api_def
  by (auto simp: token_events_not_terminal split: sum.splits prod.splits option.splits)

theorem stream_has_one_terminal_event_witness:
  "streamChatCompletion demo_qenv (js ''context'') (js ''question'') [] (js ''req-1'') 12 =
     [EvMetadata (js ''req-1'') 12, EvChunks [], EvToken (js ''See''), EvToken (js '' [1].''),
      EvEnd]
   \<and> streamChatCompletion demo_qenv_broken (js ''context'') (js ''question'') []
        (js ''req-1'') 12 = [EvError (js ''socket hang up'')]
   \<and> length (filter is_terminal
        (streamChatCompletion demo_qenv (js ''context'') (js ''question'') [] (js ''req-1'') 12))
      = 1"
proof -
  have key: "api_key_set demo_qenv" "api_key_set demo_qenv_broken"
    by (simp_all add: demo_qenv_broken_def demo_qenv_def)
  have ok: "chat_stream demo_qenv (js ''context'') (js ''question'') =
      Inr ([Some (js ''See''), None, Some [], Some (js '' [1].'')], None)"
    by (simp add: demo_qenv_def)
  have broken: "\<forall>ps. chat_stream demo_qenv_broken (js ''context'') (js ''question'')
      \<noteq> Inr (ps, None)"
    by (simp add: demo_qenv_broken_def demo_qenv_def)
  have tokens: "token_events [Some (js ''See''), None, Some [], Some (js '' [1].'')] =
      [EvToken (js ''See''), EvToken (js '' [1].'')]"
    by code_simp
  have err: "streamChatCompletion demo_qenv_broken (js ''context'') (js ''question'') []
        (js ''req-1'') 12 = [EvError (js ''socket hang up'')]"
    by code_simp
  from stream_has_one_terminal_event[OF refl refl, of demo_qenv "js ''context''"
      "js ''question''" "[]" "js ''req-1''" 12
      "[Some (js ''See''), None, Some [], Some (js '' [1].'')]"]
    stream_has_one_terminal_event[OF refl refl, of demo_qenv_broken "js ''context''"
      "js ''question''" "[]" "js ''req-1''" 12 "[]"]
    key ok broken tokens err
  show ?thesis
    by simp
qed

subsection \<open>Validation of \<open>top_k\<close>\<close>

lemma parse_top_k_out_of_range: "n = 0 \<or> 20 < n \<Longrightarrow> parse_top_k (Some (JNum n)) = None"
  by (auto simp: parse_top_k_def)

lemma schema_rejects_top_k:
  assumes "map_of members (js ''top_k'') = Some (JNum n)" and "n = 0 \<or> 20 < n"
  shows "QueryInputSchema (JObj members) = None"
  using assms parse_top_k_out_of_range[of n]
  by (simp add: QueryInputSchema_def split: option.splits)

lemma schema_default_top_k:
  assumes "map_of members (js ''top_k'') = None"
    and "QueryInputSchema (JObj members) = Some input"
  shows "top_k input = 5"
  using assms by (auto simp: QueryInputSchema_def parse_top_k_def split: option.splits)

text \<open>
  C6. The claim is that the query handler rejects every request whose \<open>top_k\<close> is 0
  or greater than 20. The handler of \<^verbatim>\<open>api/rag-query.ts\<close> does not check \<open>top_k\<close>: with
  \<open>top_k = 0\<close> it calls the embedding API and the search and answers with status 200, and
  with \<open>top_k = 21\<close> it goes on to the completion as well.
\<close>

theorem api_handler_accepts_any_top_k:
  "query_handler_api demo_qenv demo_post
     (Parsed_api \<lparr>prompt_api = Some (js ''hi''), doc_id_api = None, top_k_api = Some 0\<rparr>)
     demo_qstate
   = (JsonAnswer None [] no_results_answer None,
      demo_qstate\<lparr>calls := [CallEmbedding (js ''hi''), CallSearch]\<rparr>)
   \<and> calls (snd (query_handler_api demo_qenv demo_post
       (Parsed_api \<lparr>prompt_api = Some (js ''hi''), doc_id_api = None, top_k_api = Some 21\<rparr>)
       demo_qstate))
     = [CallEmbedding (js ''hi''), CallSearch, CallCompletion]"
  by code_simp

text \<open>
  C6, as amended. In the handler of \<^verbatim>\<open>rag-query.ts\<close>, a \<open>POST\<close> request within the rate
  limit whose body gives \<open>top_k\<close> as 0 or as a number greater than 20 is answered with
  status 400 and the code \<open>VALIDATION_ERROR\<close>, and no call of the embedding API, the
  search or the completion is made; an absent \<open>top_k\<close> is read as 5. The handler of
  \<^verbatim>\<open>api/rag-query.ts\<close> reads an absent \<open>top_k\<close> as 5 too, and checks nothing else about it.
\<close>

theorem query_handler_rejects_top_k:
  assumes "httpMethod event = js ''POST''"
    and "checkRateLimit (now event) (getClientIP event) (rateLimitMap s) = (True, m)"
    and "map_of members (js ''top_k'') = Some (JNum n)"
    and "n = 0 \<or> 20 < n"
  shows "query_handler env event (Parsed (JObj members)) s
           = (ErrorResponse 400 VALIDATION_ERROR, s\<lparr>rateLimitMap := m\<rparr>)
     \<and> calls (snd (query_handler env event (Parsed (JObj members)) s)) = calls s
     \<and> (map_of members' (js ''top_k'') = None
          \<and> QueryInputSchema (JObj members') = Some input \<longrightarrow> top_k input = 5)
     \<and> query_handler_api env event' (Parsed_api (input_api\<lparr>top_k_api := None\<rparr>)) s'
         = query_handler_api env event' (Parsed_api (input_api\<lparr>top_k_api := Some 5\<rparr>)) s'"
proof -
  have rejected: "validateRequestBody (Parsed (JObj members)) = Inl VALIDATION_ERROR"
    using schema_rejects_top_k[OF assms(3,4)] by (simp add: validateRequestBody_def)
  have "query_handler env event (Parsed (JObj members)) s
      = (ErrorResponse 400 VALIDATION_ERROR, s\<lparr>rateLimitMap := m\<rparr>)"
    using assms(1,2) rejected by (simp add: query_handler_def)
  moreover have "query_handler_api env event' (Parsed_api (input_api\<lparr>top_k_api := None\<rparr>)) s'
      = query_handler_api env event' (Parsed_api (input_api\<lparr>top_k_api := Some 5\<rparr>)) s'"
    by (simp add: query_handler_api_def split: option.splits)
  ultimately show ?thesis
    using schema_default_top_k[of members' input] by simp
qed

theorem query_handler_rejects_top_k_witness:
  "query_handler demo_qenv demo_post
     (Parsed (JObj [(js ''prompt'', JStr (js ''hi'')), (js ''top_k'', JNum 21)])) demo_qstate
   = (ErrorResponse 400 VALIDATION_ERROR,
      demo_qstate\<lparr>rateLimitMap := [(js ''unknown'', 1, 61000)]\<rparr>)
   \<and> QueryInputSchema (JObj [(js ''prompt'', JStr (js ''hi''))])
     = Some \<lparr>prompt = js ''hi'', q_doc_id = None, top_k = 5\<rparr>"
proof -
  have post: "httpMethod demo_post = js ''POST''"
    by (simp add: demo_post_def)
  have limit: "checkRateLimit (now demo_post) (getClientIP demo_post) (rateLimitMap demo_qstate)
      = (True, [(js ''unknown'', 1, 61000)])"
    by (simp add: checkRateLimit_def getClientIP_def demo_post_def demo_qstate_def truthy_def)
  have k: "map_of [(js ''prompt'', JStr (js ''hi'')), (js ''top_k'', JNum 21)] (js ''top_k'')
      = Some (JNum 21)"
    by code_simp
  have absent: "map_of [(js ''prompt'', JStr (js ''hi''))] (js ''top_k'') = None"
    by code_simp
  have valid: "QueryInputSchema (JObj [(js ''prompt'', JStr (js ''hi''))])
      = Some \<lparr>prompt = js ''hi'', q_doc_id = None, top_k = 5\<rparr>"
    by code_simp
  have range: "(21::rat) = 0 \<or> 20 < (21::rat)"
    by simp
  from query_handler_rejects_top_k[OF post limit k range, of demo_qenv
      "[(js ''prompt'', JStr (js ''hi''))]" "\<lparr>prompt = js ''hi'', q_doc_id = None, top_k = 5\<rparr>"]
    absent valid
  show ?thesis
    by simp
qed


end
